theory Spec2Isabelle
  imports Complex_Main "HOL-Library.Word"
begin

section \<open>SceneManager.cpp: the scene-description layer\<close>

text \<open>
  The development embeds \<^verbatim>\<open>Source/SceneManager.cpp\<close>. The class state is a record that
  every member function takes and returns; the OpenGL context, the shader manager and the
  mesh library are external objects whose calls are recorded in logs kept in that state.
  A C++ \<^verbatim>\<open>float\<close> is modelled as a \<^typ>\<open>real\<close>: a literal stands for its decimal
  value and the rounding of binary32 arithmetic is not modelled.
\<close>

subsection \<open>glm vectors and matrices\<close>

text \<open>
  Modelled from the spec: the glm library is not part of the repository's sources. A
  \<^verbatim>\<open>mat4\<close> is four columns, as glm stores it, and the operations below follow glm's
  definitions of \<^verbatim>\<open>translate\<close>, \<^verbatim>\<open>rotate\<close>, \<^verbatim>\<open>scale\<close>, \<^verbatim>\<open>radians\<close> and of the matrix
  product, over the reals.
\<close>

datatype vec2 = Vec2 real real
datatype vec3 = Vec3 real real real
datatype vec4 = Vec4 real real real real
datatype mat4 = Mat4 vec4 vec4 vec4 vec4

fun vec4_add :: "vec4 \<Rightarrow> vec4 \<Rightarrow> vec4" where
  "vec4_add (Vec4 a b c d) (Vec4 a' b' c' d') = Vec4 (a + a') (b + b') (c + c') (d + d')"

fun vec4_smul :: "vec4 \<Rightarrow> real \<Rightarrow> vec4" where
  "vec4_smul (Vec4 a b c d) k = Vec4 (a * k) (b * k) (c * k) (d * k)"

definition mat4_identity :: mat4 where
  "mat4_identity = Mat4 (Vec4 1 0 0 0) (Vec4 0 1 0 0) (Vec4 0 0 1 0) (Vec4 0 0 0 1)"

text \<open>The product of a matrix and a column vector, and of two matrices (column by column).\<close>

fun mat4_vec4 :: "mat4 \<Rightarrow> vec4 \<Rightarrow> vec4" where
  "mat4_vec4 (Mat4 c0 c1 c2 c3) (Vec4 x y z w) =
     vec4_add (vec4_add (vec4_add (vec4_smul c0 x) (vec4_smul c1 y)) (vec4_smul c2 z))
       (vec4_smul c3 w)"

fun mat4_mul :: "mat4 \<Rightarrow> mat4 \<Rightarrow> mat4" where
  "mat4_mul m (Mat4 b0 b1 b2 b3) =
     Mat4 (mat4_vec4 m b0) (mat4_vec4 m b1) (mat4_vec4 m b2) (mat4_vec4 m b3)"

definition glm_radians :: "real \<Rightarrow> real" where
  "glm_radians degrees = degrees * (pi / 180)"

fun glm_normalize :: "vec3 \<Rightarrow> vec3" where
  "glm_normalize (Vec3 x y z) =
     (let k = 1 / sqrt (x * x + y * y + z * z) in Vec3 (x * k) (y * k) (z * k))"

text \<open>\<^verbatim>\<open>glm::translate(m, v)\<close>, \<^verbatim>\<open>glm::scale(m, v)\<close> and \<^verbatim>\<open>glm::rotate(m, angle, v)\<close>.\<close>

fun glm_translate_m :: "mat4 \<Rightarrow> vec3 \<Rightarrow> mat4" where
  "glm_translate_m (Mat4 m0 m1 m2 m3) (Vec3 x y z) =
     Mat4 m0 m1 m2
       (vec4_add (vec4_add (vec4_add (vec4_smul m0 x) (vec4_smul m1 y)) (vec4_smul m2 z)) m3)"

fun glm_scale_m :: "mat4 \<Rightarrow> vec3 \<Rightarrow> mat4" where
  "glm_scale_m (Mat4 m0 m1 m2 m3) (Vec3 x y z) =
     Mat4 (vec4_smul m0 x) (vec4_smul m1 y) (vec4_smul m2 z) m3"

fun glm_rotate_m :: "mat4 \<Rightarrow> real \<Rightarrow> vec3 \<Rightarrow> mat4" where
  "glm_rotate_m (Mat4 m0 m1 m2 m3) angle v =
     (let c = cos angle; s = sin angle in
      case glm_normalize v of Vec3 ax ay az \<Rightarrow>
        (let tx = (1 - c) * ax; ty = (1 - c) * ay; tz = (1 - c) * az;
             r00 = c + tx * ax;      r01 = tx * ay + s * az; r02 = tx * az - s * ay;
             r10 = ty * ax - s * az; r11 = c + ty * ay;      r12 = ty * az + s * ax;
             r20 = tz * ax + s * ay; r21 = tz * ay - s * ax; r22 = c + tz * az
         in Mat4
              (vec4_add (vec4_add (vec4_smul m0 r00) (vec4_smul m1 r01)) (vec4_smul m2 r02))
              (vec4_add (vec4_add (vec4_smul m0 r10) (vec4_smul m1 r11)) (vec4_smul m2 r12))
              (vec4_add (vec4_add (vec4_smul m0 r20) (vec4_smul m1 r21)) (vec4_smul m2 r22))
              m3))"

text \<open>The one-argument forms of \<^verbatim>\<open>glm/gtx/transform.hpp\<close> start from the identity.\<close>

definition glm_translate :: "vec3 \<Rightarrow> mat4" where
  "glm_translate v = glm_translate_m mat4_identity v"

definition glm_scale :: "vec3 \<Rightarrow> mat4" where
  "glm_scale v = glm_scale_m mat4_identity v"

definition glm_rotate :: "real \<Rightarrow> vec3 \<Rightarrow> mat4" where
  "glm_rotate angle v = glm_rotate_m mat4_identity angle v"

subsection \<open>Registry entries\<close>

text \<open>
  Modelled from the spec: \<^verbatim>\<open>SceneManager.h\<close> is not part of the sources. A texture entry is
  a tag and a GPU handle (a 32-bit \<^verbatim>\<open>GLuint\<close>), a material entry is a tag and five
  properties, and the texture table has 16 slots.
\<close>

type_synonym GLuint = "32 word"

record TEXTURE_INFO =
  tag :: string
  ID :: GLuint

record OBJECT_MATERIAL =
  ambientColor :: vec3
  ambientStrength :: real
  diffuseColor :: vec3
  specularColor :: vec3
  shininess :: real
  tag :: string

subsection \<open>FindMaterial\<close>

text \<open>
  The scan of \<^verbatim>\<open>FindMaterial\<close>: the loop variables are \<open>index\<close> and \<open>bFound\<close>, and
  \<open>material\<close> is the caller's object behind the reference parameter. On a match the five
  properties are copied (the tag is not) and the flag ends the loop.
\<close>

function FindMaterial_loop ::
  "OBJECT_MATERIAL list \<Rightarrow> string \<Rightarrow> nat \<Rightarrow> bool \<Rightarrow> OBJECT_MATERIAL \<Rightarrow> bool \<times> OBJECT_MATERIAL"
where
  "FindMaterial_loop ms tg index bFound material =
     (if index < length ms \<and> bFound = False then
        (if OBJECT_MATERIAL.tag (ms ! index) = tg then
           FindMaterial_loop ms tg index True
             (material\<lparr>ambientColor := ambientColor (ms ! index),
                       ambientStrength := ambientStrength (ms ! index),
                       diffuseColor := diffuseColor (ms ! index),
                       specularColor := specularColor (ms ! index),
                       shininess := shininess (ms ! index)\<rparr>)
         else FindMaterial_loop ms tg (index + 1) bFound material)
      else (bFound, material))"
  by pat_completeness auto
termination
  by (relation "measure (\<lambda>(ms, tg, index, bFound, material).
        2 * (length ms - index) + (if bFound then 0 else 1))") auto

declare FindMaterial_loop.simps [simp del]

text \<open>
  \<^verbatim>\<open>FindMaterial\<close> returns its \<^verbatim>\<open>bool\<close> and the final contents of the reference
  parameter. After the loop it returns \<^verbatim>\<open>true\<close>, whatever \<open>bFound\<close> is.
\<close>

definition FindMaterial ::
  "OBJECT_MATERIAL list \<Rightarrow> string \<Rightarrow> OBJECT_MATERIAL \<Rightarrow> bool \<times> OBJECT_MATERIAL"
where
  "FindMaterial ms tg material =
     (if length ms = 0 then (False, material)
      else (True, snd (FindMaterial_loop ms tg 0 False material)))"

text \<open>The copy of the five properties that a match performs.\<close>

definition copy_properties :: "OBJECT_MATERIAL \<Rightarrow> OBJECT_MATERIAL \<Rightarrow> OBJECT_MATERIAL" where
  "copy_properties e material =
     material\<lparr>ambientColor := ambientColor e,
              ambientStrength := ambientStrength e,
              diffuseColor := diffuseColor e,
              specularColor := specularColor e,
              shininess := shininess e\<rparr>"


text \<open>\<^verbatim>\<open>m_objectMaterials.push_back(x)\<close>: the entry is appended.\<close>

definition push_back :: "'a list \<Rightarrow> 'a \<Rightarrow> 'a list" where
  "push_back xs x = xs @ [x]"

subsection \<open>External collaborators: OpenGL, the image decoder, the shader, the meshes\<close>

text \<open>
  Modelled from the spec: the OpenGL context is outside the repository. Its state here is
  the log of the calls made, the texture names the driver hands out (in order, with the
  number already handed out), the active texture unit and the 2D texture bound to each
  unit. \<open>DeleteTextures\<close> is the API's deletion entry point.
\<close>

datatype gl_enum =
    GL_TEXTURE_2D | GL_TEXTURE_WRAP_S | GL_TEXTURE_WRAP_T | GL_TEXTURE_MIN_FILTER
  | GL_TEXTURE_MAG_FILTER | GL_REPEAT | GL_LINEAR | GL_RGB8 | GL_RGB | GL_RGBA8 | GL_RGBA
  | GL_UNSIGNED_BYTE

datatype gl_call =
    GenTextures GLuint
  | BindTexture gl_enum GLuint
  | TexParameteri gl_enum gl_enum gl_enum
  | TexImage2D gl_enum gl_enum int int gl_enum gl_enum
  | GenerateMipmap gl_enum
  | ActiveTexture nat
  | DeleteTextures GLuint

record gl_context =
  gl_calls :: "gl_call list"
  gl_names :: "nat \<Rightarrow> GLuint"
  gl_generated :: nat
  gl_active :: nat
  gl_bound :: "nat \<Rightarrow> GLuint"

text \<open>\<^verbatim>\<open>glGenTextures(1, &id)\<close>: the next name of the driver is returned and logged.\<close>

definition glGenTextures :: "gl_context \<Rightarrow> GLuint \<times> gl_context" where
  "glGenTextures g =
     (let name = gl_names g (gl_generated g) in
      (name, g\<lparr>gl_calls := gl_calls g @ [GenTextures name],
               gl_generated := gl_generated g + 1\<rparr>))"

text \<open>\<^verbatim>\<open>glActiveTexture(GL_TEXTURE0 + i)\<close> selects unit \<open>i\<close>.\<close>

definition glActiveTexture :: "nat \<Rightarrow> gl_context \<Rightarrow> gl_context" where
  "glActiveTexture i g = g\<lparr>gl_calls := gl_calls g @ [ActiveTexture i], gl_active := i\<rparr>"

text \<open>\<^verbatim>\<open>glBindTexture(GL_TEXTURE_2D, id)\<close> binds on the active unit.\<close>

definition glBindTexture :: "gl_enum \<Rightarrow> GLuint \<Rightarrow> gl_context \<Rightarrow> gl_context" where
  "glBindTexture target name g =
     g\<lparr>gl_calls := gl_calls g @ [BindTexture target name],
       gl_bound := (gl_bound g)(gl_active g := name)\<rparr>"

definition glTexParameteri :: "gl_enum \<Rightarrow> gl_enum \<Rightarrow> gl_enum \<Rightarrow> gl_context \<Rightarrow> gl_context" where
  "glTexParameteri target pname param g =
     g\<lparr>gl_calls := gl_calls g @ [TexParameteri target pname param]\<rparr>"

definition glTexImage2D ::
  "gl_enum \<Rightarrow> gl_enum \<Rightarrow> int \<Rightarrow> int \<Rightarrow> gl_enum \<Rightarrow> gl_enum \<Rightarrow> gl_context \<Rightarrow> gl_context"
where
  "glTexImage2D target internal w h format type g =
     g\<lparr>gl_calls := gl_calls g @ [TexImage2D target internal w h format type]\<rparr>"

definition glGenerateMipmap :: "gl_enum \<Rightarrow> gl_context \<Rightarrow> gl_context" where
  "glGenerateMipmap target g = g\<lparr>gl_calls := gl_calls g @ [GenerateMipmap target]\<rparr>"

text \<open>
  Modelled from the spec: the image decoder \<^verbatim>\<open>stbi_load\<close> is a function from the file name
  to the decoded image, or to nothing when the file cannot be decoded.
\<close>

record image =
  width :: int
  height :: int
  colorChannels :: int
  pixels :: "8 word list"

type_synonym decoder = "string \<Rightarrow> image option"

text \<open>
  Modelled from the spec: the shader manager is the trace of its named-uniform uploads,
  and the mesh library is the log of the calls made to it.
\<close>

datatype uniform_value =
    Mat4Value mat4 | Vec4Value vec4 | Vec3Value vec3 | Vec2Value vec2
  | FloatValue real | IntValue int | BoolValue bool | Sampler2DValue int

type_synonym ShaderManager = "(string \<times> uniform_value) list"

datatype mesh_call =
    DrawPlaneMesh | DrawBoxMesh | DrawCylinderMesh | DrawTaperedCylinderMesh
  | DrawSphereMesh | DrawTorusMesh | DrawPrismMesh

definition g_ModelName :: string where "g_ModelName = ''model''"
definition g_ColorValueName :: string where "g_ColorValueName = ''objectColor''"
definition g_TextureValueName :: string where "g_TextureValueName = ''objectTexture''"
definition g_UseTextureName :: string where "g_UseTextureName = ''bUseTexture''"

subsection \<open>The class state and its faults\<close>

text \<open>
  \<open>m_pShaderManager\<close> is a pointer: \<open>None\<close> is \<^verbatim>\<open>NULL\<close>. An access outside the 16-slot
  texture table and a call through a null pointer are undefined behaviour in C++; the
  model stops there with a fault. The \<^verbatim>\<open>int\<close> counter \<open>m_loadedTextures\<close> starts at 0 and is
  only ever incremented by one, far from its upper limit, so it is a natural number; so
  are the loop indices.
\<close>

datatype fault = OutOfBounds | NullPointer

record scene_manager =
  m_pShaderManager :: "ShaderManager option"
  m_basicMeshes :: "mesh_call list"
  m_loadedTextures :: nat
  m_textureIDs :: "TEXTURE_INFO list"
  m_objectMaterials :: "OBJECT_MATERIAL list"
  gl :: gl_context

text \<open>A sequence of statements, each a member call on the state; a fault ends it.\<close>

fun run_seq :: "('s \<Rightarrow> fault + 's) list \<Rightarrow> 's \<Rightarrow> fault + 's" where
  "run_seq [] s = Inr s"
| "run_seq (f # fs) s = (case f s of Inl e \<Rightarrow> Inl e | Inr s' \<Rightarrow> run_seq fs s')"

subsection \<open>Constructor\<close>

definition SceneManager :: "ShaderManager option \<Rightarrow> gl_context \<Rightarrow> scene_manager" where
  "SceneManager pShaderManager g =
     \<lparr>m_pShaderManager = pShaderManager,
      m_basicMeshes = [],
      m_loadedTextures = 0,
      m_textureIDs = map (\<lambda>i. \<lparr>TEXTURE_INFO.tag = ''/0'', ID = - 1\<rparr>) [0..<16],
      m_objectMaterials = [],
      gl = g\<rparr>"

subsection \<open>CreateGLTexture\<close>

text \<open>
  The result is the returned \<^verbatim>\<open>bool\<close> and the new state. The unsupported-channel branch
  returns after the texture name was generated and bound; the registry write is checked
  against the table's bounds. The messages written to \<^verbatim>\<open>std::cout\<close> and the release of the
  decoded pixels are not modelled.
\<close>

definition CreateGLTexture ::
  "decoder \<Rightarrow> string \<Rightarrow> string \<Rightarrow> scene_manager \<Rightarrow> fault + (bool \<times> scene_manager)"
where
  "CreateGLTexture stbi_load filename tg s =
     (case stbi_load filename of
        Some img \<Rightarrow>
          (let (textureID, g1) = glGenTextures (gl s);
               g2 = glBindTexture GL_TEXTURE_2D textureID g1;
               g3 = glTexParameteri GL_TEXTURE_2D GL_TEXTURE_WRAP_S GL_REPEAT g2;
               g4 = glTexParameteri GL_TEXTURE_2D GL_TEXTURE_WRAP_T GL_REPEAT g3;
               g5 = glTexParameteri GL_TEXTURE_2D GL_TEXTURE_MIN_FILTER GL_LINEAR g4;
               g6 = glTexParameteri GL_TEXTURE_2D GL_TEXTURE_MAG_FILTER GL_LINEAR g5
           in
           case (if colorChannels img = 3 then
                   Some (glTexImage2D GL_TEXTURE_2D GL_RGB8 (width img) (height img)
                           GL_RGB GL_UNSIGNED_BYTE g6)
                 else if colorChannels img = 4 then
                   Some (glTexImage2D GL_TEXTURE_2D GL_RGBA8 (width img) (height img)
                           GL_RGBA GL_UNSIGNED_BYTE g6)
                 else None) of
             None \<Rightarrow> Inr (False, s\<lparr>gl := g6\<rparr>)
           | Some g7 \<Rightarrow>
               (let g8 = glGenerateMipmap GL_TEXTURE_2D g7;
                    g9 = glBindTexture GL_TEXTURE_2D 0 g8
                in
                if m_loadedTextures s < length (m_textureIDs s) then
                  Inr (True,
                       s\<lparr>m_textureIDs := (m_textureIDs s)
                            [m_loadedTextures s := \<lparr>TEXTURE_INFO.tag = tg, ID = textureID\<rparr>],
                         m_loadedTextures := m_loadedTextures s + 1,
                         gl := g9\<rparr>)
                else Inl OutOfBounds))
      | None \<Rightarrow> Inr (False, s))"

subsection \<open>BindGLTextures and DestroyGLTextures\<close>

function BindGLTextures_loop :: "nat \<Rightarrow> scene_manager \<Rightarrow> fault + scene_manager" where
  "BindGLTextures_loop i s =
     (if i < m_loadedTextures s then
        (if i < length (m_textureIDs s) then
           BindGLTextures_loop (i + 1)
             (s\<lparr>gl := glBindTexture GL_TEXTURE_2D (ID (m_textureIDs s ! i))
                        (glActiveTexture i (gl s))\<rparr>)
         else Inl OutOfBounds)
      else Inr s)"
  by pat_completeness auto
termination
  by (relation "measure (\<lambda>(i, s). m_loadedTextures s - i)") auto

declare BindGLTextures_loop.simps [simp del]

definition BindGLTextures :: "scene_manager \<Rightarrow> fault + scene_manager" where
  "BindGLTextures s = BindGLTextures_loop 0 s"

function DestroyGLTextures_loop :: "nat \<Rightarrow> scene_manager \<Rightarrow> fault + scene_manager" where
  "DestroyGLTextures_loop i s =
     (if i < m_loadedTextures s then
        (if i < length (m_textureIDs s) then
           (let (name, g') = glGenTextures (gl s) in
            DestroyGLTextures_loop (i + 1)
              (s\<lparr>m_textureIDs := (m_textureIDs s)[i := (m_textureIDs s ! i)\<lparr>ID := name\<rparr>],
                 gl := g'\<rparr>))
         else Inl OutOfBounds)
      else Inr s)"
  by pat_completeness auto
termination
  by (relation "measure (\<lambda>(i, s). m_loadedTextures s - i)") (auto simp: glGenTextures_def)

declare DestroyGLTextures_loop.simps [simp del]

definition DestroyGLTextures :: "scene_manager \<Rightarrow> fault + scene_manager" where
  "DestroyGLTextures s = DestroyGLTextures_loop 0 s"

subsection \<open>FindTextureID and FindTextureSlot\<close>

text \<open>
  Both scans return an \<^verbatim>\<open>int\<close> that starts at the sentinel \<open>-1\<close>. \<^verbatim>\<open>FindTextureID\<close>
  converts the stored 32-bit handle to \<^verbatim>\<open>int\<close>.
\<close>

function FindTextureID_loop ::
  "scene_manager \<Rightarrow> string \<Rightarrow> nat \<Rightarrow> bool \<Rightarrow> int \<Rightarrow> fault + int"
where
  "FindTextureID_loop s tg index bFound textureID =
     (if index < m_loadedTextures s \<and> bFound = False then
        (if index < length (m_textureIDs s) then
           (if TEXTURE_INFO.tag (m_textureIDs s ! index) = tg then
              FindTextureID_loop s tg index True (sint (ID (m_textureIDs s ! index)))
            else FindTextureID_loop s tg (index + 1) bFound textureID)
         else Inl OutOfBounds)
      else Inr textureID)"
  by pat_completeness auto
termination
  by (relation "measure (\<lambda>(s, tg, index, bFound, textureID).
        2 * (m_loadedTextures s - index) + (if bFound then 0 else 1))") auto

declare FindTextureID_loop.simps [simp del]

definition FindTextureID :: "scene_manager \<Rightarrow> string \<Rightarrow> fault + int" where
  "FindTextureID s tg = FindTextureID_loop s tg 0 False (- 1)"

function FindTextureSlot_loop ::
  "scene_manager \<Rightarrow> string \<Rightarrow> nat \<Rightarrow> bool \<Rightarrow> int \<Rightarrow> fault + int"
where
  "FindTextureSlot_loop s tg index bFound textureSlot =
     (if index < m_loadedTextures s \<and> bFound = False then
        (if index < length (m_textureIDs s) then
           (if TEXTURE_INFO.tag (m_textureIDs s ! index) = tg then
              FindTextureSlot_loop s tg index True (int index)
            else FindTextureSlot_loop s tg (index + 1) bFound textureSlot)
         else Inl OutOfBounds)
      else Inr textureSlot)"
  by pat_completeness auto
termination
  by (relation "measure (\<lambda>(s, tg, index, bFound, textureSlot).
        2 * (m_loadedTextures s - index) + (if bFound then 0 else 1))") auto

declare FindTextureSlot_loop.simps [simp del]

definition FindTextureSlot :: "scene_manager \<Rightarrow> string \<Rightarrow> fault + int" where
  "FindTextureSlot s tg = FindTextureSlot_loop s tg 0 False (- 1)"

subsection \<open>Uniform uploads\<close>

definition modelView :: "vec3 \<Rightarrow> real \<Rightarrow> real \<Rightarrow> real \<Rightarrow> vec3 \<Rightarrow> mat4" where
  "modelView scaleXYZ XrotationDegrees YrotationDegrees ZrotationDegrees positionXYZ =
     (let scale = glm_scale scaleXYZ;
          rotationX = glm_rotate (glm_radians XrotationDegrees) (Vec3 1 0 0);
          rotationY = glm_rotate (glm_radians YrotationDegrees) (Vec3 0 1 0);
          rotationZ = glm_rotate (glm_radians ZrotationDegrees) (Vec3 0 0 1);
          translation = glm_translate positionXYZ
      in mat4_mul (mat4_mul (mat4_mul (mat4_mul translation rotationX) rotationY) rotationZ)
           scale)"

definition SetTransformations ::
  "vec3 \<Rightarrow> real \<Rightarrow> real \<Rightarrow> real \<Rightarrow> vec3 \<Rightarrow> scene_manager \<Rightarrow> fault + scene_manager"
where
  "SetTransformations scaleXYZ XrotationDegrees YrotationDegrees ZrotationDegrees positionXYZ s =
     (case m_pShaderManager s of
        None \<Rightarrow> Inr s
      | Some sh \<Rightarrow>
          Inr (s\<lparr>m_pShaderManager := Some (sh @
                 [(g_ModelName, Mat4Value (modelView scaleXYZ XrotationDegrees
                     YrotationDegrees ZrotationDegrees positionXYZ))])\<rparr>))"

definition SetShaderColor ::
  "real \<Rightarrow> real \<Rightarrow> real \<Rightarrow> real \<Rightarrow> scene_manager \<Rightarrow> fault + scene_manager"
where
  "SetShaderColor redColorValue greenColorValue blueColorValue alphaValue s =
     (case m_pShaderManager s of
        None \<Rightarrow> Inr s
      | Some sh \<Rightarrow>
          Inr (s\<lparr>m_pShaderManager := Some (sh @
                 [(g_UseTextureName, IntValue 0),
                  (g_ColorValueName,
                   Vec4Value (Vec4 redColorValue greenColorValue blueColorValue alphaValue))])\<rparr>))"

definition SetShaderTexture :: "string \<Rightarrow> scene_manager \<Rightarrow> fault + scene_manager" where
  "SetShaderTexture textureTag s =
     (case m_pShaderManager s of
        None \<Rightarrow> Inr s
      | Some sh \<Rightarrow>
          (case FindTextureSlot s textureTag of
             Inl e \<Rightarrow> Inl e
           | Inr textureID \<Rightarrow>
               Inr (s\<lparr>m_pShaderManager := Some (sh @
                      [(g_UseTextureName, IntValue 1),
                       (g_TextureValueName, Sampler2DValue textureID)])\<rparr>)))"

definition SetTextureUVScale :: "real \<Rightarrow> real \<Rightarrow> scene_manager \<Rightarrow> fault + scene_manager" where
  "SetTextureUVScale u v s =
     (case m_pShaderManager s of
        None \<Rightarrow> Inr s
      | Some sh \<Rightarrow>
          Inr (s\<lparr>m_pShaderManager := Some (sh @ [(''UVscale'', Vec2Value (Vec2 u v))])\<rparr>))"

text \<open>
  \<^verbatim>\<open>SetShaderMaterial\<close> declares its local \<^verbatim>\<open>OBJECT_MATERIAL material\<close> without giving
  its properties a value. What the local holds at that point is not fixed by the program,
  so it is the argument \<open>uninitialized\<close>. The shader pointer is used without a null check.
\<close>

definition SetShaderMaterial ::
  "OBJECT_MATERIAL \<Rightarrow> string \<Rightarrow> scene_manager \<Rightarrow> fault + scene_manager"
where
  "SetShaderMaterial uninitialized materialTag s =
     (if length (m_objectMaterials s) > 0 then
        (let (bReturn, material) = FindMaterial (m_objectMaterials s) materialTag uninitialized
         in
         if bReturn = True then
           (case m_pShaderManager s of
              None \<Rightarrow> Inl NullPointer
            | Some sh \<Rightarrow>
                Inr (s\<lparr>m_pShaderManager := Some (sh @
                       [(''material.ambientColor'', Vec3Value (ambientColor material)),
                        (''material.ambientStrength'', FloatValue (ambientStrength material)),
                        (''material.diffuseColor'', Vec3Value (diffuseColor material)),
                        (''material.specularColor'', Vec3Value (specularColor material)),
                        (''material.shininess'', FloatValue (shininess material))])\<rparr>))
         else Inr s)
      else Inr s)"

text \<open>A call \<^verbatim>\<open>m_basicMeshes->DrawXMesh()\<close> is recorded in the mesh library's log.\<close>

definition basicMeshes :: "mesh_call \<Rightarrow> scene_manager \<Rightarrow> fault + scene_manager" where
  "basicMeshes c s = Inr (s\<lparr>m_basicMeshes := m_basicMeshes s @ [c]\<rparr>)"

subsection \<open>Setup: LoadSceneTextures and DefineObjectMaterials\<close>

text \<open>
  The file and tag of each \<^verbatim>\<open>CreateGLTexture\<close> call of \<^verbatim>\<open>LoadSceneTextures\<close>, in the
  order of the calls. Each call's result \<open>bReturn\<close> is overwritten by the next and never
  read.
\<close>

definition scene_textures :: "(string \<times> string) list" where
  "scene_textures =
     [(''textures/plastic_dark_seamless.jpg'', ''plastic''),
      (''textures/wood_knots_seamlessr.jpg'', ''wood''),
      (''textures/greywall.jpg'', ''wall''),
      (''textures/rubber_circles_seamless.jpg'', ''pad''),
      (''textures/screen_wallpaper_2.jpg'', ''pad2''),
      (''textures/PCscreen.jpg'', ''screen''),
      (''textures/blackmetal.jpg'', ''metal''),
      (''textures/motherboard.jpg'', ''mb''),
      (''textures/Riolu.jpg'', ''PKMN''),
      (''textures/rainbowFade.jpg'', ''rgb''),
      (''textures/motherboardback.jpeg'', ''mbb''),
      (''textures/blue.jpg'', ''blue''),
      (''textures/pink.jpg'', ''pink''),
      (''textures/Keyboardtop.jpg'', ''keyboard''),
      (''textures/RAMside.jpg'', ''ram''),
      (''textures/blackplasticmaterial.jpg'', ''blackpl'')]"

definition load_texture ::
  "decoder \<Rightarrow> string \<times> string \<Rightarrow> scene_manager \<Rightarrow> fault + scene_manager"
where
  "load_texture stbi_load ft s =
     (case CreateGLTexture stbi_load (fst ft) (snd ft) s of
        Inl e \<Rightarrow> Inl e
      | Inr (bReturn, s') \<Rightarrow> Inr s')"

definition LoadSceneTextures :: "decoder \<Rightarrow> scene_manager \<Rightarrow> fault + scene_manager" where
  "LoadSceneTextures stbi_load =
     run_seq (map (load_texture stbi_load) scene_textures @ [BindGLTextures])"

definition DefineObjectMaterials :: "scene_manager \<Rightarrow> scene_manager" where
  "DefineObjectMaterials s =
     (let goldMaterial =
            \<lparr>ambientColor = Vec3 0.2 0.2 0.2, ambientStrength = 0.3,
             diffuseColor = Vec3 0.2 0.2 0.2, specularColor = Vec3 0.5 0.5 0.5,
             shininess = 25, tag = ''metal''\<rparr>;
          s1 = s\<lparr>m_objectMaterials := push_back (m_objectMaterials s) goldMaterial\<rparr>;
          woodMaterial =
            \<lparr>ambientColor = Vec3 0.1 0.1 0.1, ambientStrength = 0.2,
             diffuseColor = Vec3 0.3 0.3 0.3, specularColor = Vec3 0.1 0.1 0.1,
             shininess = 0.3, tag = ''wood''\<rparr>;
          s2 = s1\<lparr>m_objectMaterials := push_back (m_objectMaterials s1) woodMaterial\<rparr>;
          glassMaterial =
            \<lparr>ambientColor = Vec3 0.4 0.4 0.4, ambientStrength = 0.3,
             diffuseColor = Vec3 0.3 0.3 0.3, specularColor = Vec3 0.6 0.6 0.6,
             shininess = 85, tag = ''glass''\<rparr>;
          wallMaterial =
            \<lparr>ambientColor = Vec3 0.1 0.1 0.1, ambientStrength = 0.2,
             diffuseColor = Vec3 0.5 0.5 0.5, specularColor = Vec3 0.1 0.1 0.1,
             shininess = 0, tag = ''walls''\<rparr>;
          s3 = s2\<lparr>m_objectMaterials := push_back (m_objectMaterials s2) wallMaterial\<rparr>;
          grapeMaterial =
            \<lparr>ambientColor = Vec3 0.1 0.1 0.1, ambientStrength = 0.1,
             diffuseColor = Vec3 0.3 0.2 0.3, specularColor = Vec3 0.4 0.2 0.2,
             shininess = 0.5, tag = ''plastic''\<rparr>;
          s4 = s3\<lparr>m_objectMaterials := push_back (m_objectMaterials s3) grapeMaterial\<rparr>
      in s4)"

subsection \<open>Render: the passes and RenderScene\<close>

text \<open>
  Each pass assigns its five transformation variables before every
  \<^verbatim>\<open>SetTransformations\<close> call; the values are written at the call. The argument \<open>u\<close> is
  what the uninitialized local of \<^verbatim>\<open>SetShaderMaterial\<close> holds during the pass.
\<close>

definition RenderDeskandwalls :: "OBJECT_MATERIAL \<Rightarrow> scene_manager \<Rightarrow> fault + scene_manager" where
  "RenderDeskandwalls u = run_seq
     [SetTransformations (Vec3 20 1 10) 90 0 0 (Vec3 0 10 (- 10)),
      SetShaderTexture ''wall'',
      SetTextureUVScale 1 1,
      SetShaderMaterial u ''walls'',
      basicMeshes DrawPlaneMesh,
      SetTransformations (Vec3 10 1 10) 0 0 90 (Vec3 20 10 0),
      SetShaderTexture ''wall'',
      SetTextureUVScale 1 1,
      SetShaderMaterial u ''walls'',
      basicMeshes DrawPlaneMesh,
      SetTransformations (Vec3 20 1 10) 0 0 0 (Vec3 0 0 0),
      SetShaderTexture ''wood'',
      SetTextureUVScale 1 1,
      SetShaderMaterial u ''wood'',
      basicMeshes DrawPlaneMesh]"

definition RenderKeyboardandmat :: "OBJECT_MATERIAL \<Rightarrow> scene_manager \<Rightarrow> fault + scene_manager" where
  "RenderKeyboardandmat u = run_seq
     [SetTransformations (Vec3 31 0.1 10) 0 0 0 (Vec3 (- 4) 0.1 4.5),
      SetShaderTexture ''pad'',
      SetTextureUVScale 1 1,
      SetShaderTexture ''pad2'',
      SetTextureUVScale 1 1,
      basicMeshes DrawBoxMesh,
      SetTransformations (Vec3 14 0.5 5) 0 0 0 (Vec3 (- 8) 0.3 4.5),
      SetShaderTexture ''keyboard'',
      SetTextureUVScale 1 1,
      SetShaderMaterial u ''plastic'',
      basicMeshes DrawBoxMesh,
      SetTransformations (Vec3 1 14 0.5) 90 180 90 (Vec3 (- 8) 0.3 7),
      SetShaderTexture ''plastic'',
      SetTextureUVScale 1 1,
      SetShaderMaterial u ''plastic'',
      basicMeshes DrawPrismMesh,
      SetTransformations (Vec3 14.01 0.49 5.01) 0 0 0 (Vec3 (- 8) 0.3 4.5),
      SetShaderTexture ''plastic'',
      SetTextureUVScale 1 1,
      SetShaderMaterial u ''plastic'',
      basicMeshes DrawBoxMesh]"

definition RenderMouse :: "OBJECT_MATERIAL \<Rightarrow> scene_manager \<Rightarrow> fault + scene_manager" where
  "RenderMouse u = run_seq
     [SetTransformations (Vec3 1 0.3 2) 0 0 0 (Vec3 2 0.2 4.5),
      SetShaderTexture ''blackpl'',
      SetTextureUVScale 1 1,
      SetShaderMaterial u ''plastic'',
      basicMeshes DrawCylinderMesh,
      SetTransformations (Vec3 1 0.5 2) 0 0 0 (Vec3 2 0.5 4.5),
      SetShaderTexture ''blackpl'',
      SetTextureUVScale 1 1,
      SetShaderMaterial u ''plastic'',
      basicMeshes DrawSphereMesh,
      SetTransformations (Vec3 0.35 0.35 0.35) 0 90 0 (Vec3 2 0.67 3.7),
      SetShaderColor 0.071 0.071 0.071 1,
      basicMeshes DrawTorusMesh,
      SetTransformations (Vec3 0.15 0.15 0.15) 180 0 0 (Vec3 2 0.95 4.2),
      SetShaderColor 0.071 0.071 0.071 1,
      basicMeshes DrawBoxMesh,
      SetTransformations (Vec3 0.15 0.3 0.15) 90 0 0 (Vec3 1.15 0.7 4.9),
      SetShaderColor 0.071 0.071 0.071 1,
      basicMeshes DrawBoxMesh,
      SetTransformations (Vec3 0.15 0.3 0.15) 90 0 0 (Vec3 1.14 0.7 4.5),
      SetShaderColor 0.071 0.071 0.071 1,
      basicMeshes DrawBoxMesh,
      SetTransformations (Vec3 1 1.8 0.5) 90 0 0 (Vec3 2 0.1 4.5),
      SetShaderColor 0.949 0.184 0.863 1,
      basicMeshes DrawTorusMesh]"

definition RenderMonitor :: "OBJECT_MATERIAL \<Rightarrow> scene_manager \<Rightarrow> fault + scene_manager" where
  "RenderMonitor u = run_seq
     [SetTransformations (Vec3 9 0.5 5) 0 180 0 (Vec3 (- 4) 0.3 (- 3.5)),
      SetShaderTexture ''plastic'',
      SetTextureUVScale 1 1,
      SetShaderMaterial u ''plastic'',
      basicMeshes DrawPrismMesh,
      SetTransformations (Vec3 1.15 6.3 1.15) 0 45 0 (Vec3 (- 4) 3.3 (- 3.5)),
      SetShaderTexture ''plastic'',
      SetTextureUVScale 1 1,
      SetShaderMaterial u ''plastic'',
      basicMeshes DrawBoxMesh,
      SetTransformations (Vec3 1 1 0.85) 0 0 0 (Vec3 (- 4) 5.95 (- 2.85)),
      SetShaderTexture ''plastic'',
      SetTextureUVScale 1 1,
      SetShaderMaterial u ''plastic'',
      basicMeshes DrawBoxMesh,
      SetTransformations (Vec3 12 0.1 6) 90 0 0 (Vec3 (- 4) 5.95 (- 2.223)),
      SetShaderTexture ''screen'',
      SetTextureUVScale 1 1,
      SetShaderMaterial u ''metal'',
      basicMeshes DrawBoxMesh,
      SetTransformations (Vec3 12.25 0.25 6.25) 90 0 0 (Vec3 (- 4) 5.95 (- 2.3)),
      SetShaderTexture ''plastic'',
      SetTextureUVScale 1 1,
      SetShaderMaterial u ''plastic'',
      basicMeshes DrawBoxMesh]"

definition RenderPCexterior :: "OBJECT_MATERIAL \<Rightarrow> scene_manager \<Rightarrow> fault + scene_manager" where
  "RenderPCexterior u = run_seq
     [SetTransformations (Vec3 0.15 0.63 0.5) 0 0 0 (Vec3 11 0.1 8.5),
      SetShaderColor 0.071 0.071 0.071 1,
      SetShaderMaterial u ''plastic'',
      basicMeshes DrawCylinderMesh,
      SetTransformations (Vec3 0.15 0.63 0.5) 0 0 0 (Vec3 11 0 (- 4.5)),
      SetShaderColor 0.071 0.071 0.071 1,
      SetShaderMaterial u ''plastic'',
      basicMeshes DrawCylinderMesh,
      SetTransformations (Vec3 0.15 0.63 0.5) 0 0 0 (Vec3 16 0 8.5),
      SetShaderColor 0.071 0.071 0.071 1,
      SetShaderMaterial u ''plastic'',
      basicMeshes DrawCylinderMesh,
      SetTransformations (Vec3 0.15 0.63 0.5) 0 0 0 (Vec3 16 0 (- 4.5)),
      SetShaderColor 0.071 0.071 0.071 1,
      SetShaderMaterial u ''plastic'',
      basicMeshes DrawCylinderMesh,
      SetTransformations (Vec3 6 0.3 14.8) 0 0 0 (Vec3 13.5 0.71 1.9),
      SetShaderTexture ''metal'',
      SetTextureUVScale 1 1,
      SetShaderMaterial u ''metal'',
      basicMeshes DrawBoxMesh,
      SetTransformations (Vec3 6 0.3 14.8) 0 0 0 (Vec3 13.5 10.79 1.9),
      SetShaderTexture ''metal'',
      SetTextureUVScale 1 1,
      SetShaderMaterial u ''metal'',
      basicMeshes DrawBoxMesh,
      SetTransformations (Vec3 6 0.3 9.8) 90 0 0 (Vec3 13.5 5.75 (- 5.349)),
      SetShaderTexture ''metal'',
      SetTextureUVScale 1 1,
      SetShaderMaterial u ''metal'',
      basicMeshes DrawBoxMesh,
      SetTransformations (Vec3 14.5 0.3 9.8) 90 0 90 (Vec3 16.35 5.75 2.05),
      SetShaderTexture ''metal'',
      SetTextureUVScale 1 1,
      SetShaderMaterial u ''metal'',
      basicMeshes DrawBoxMesh,
      SetTransformations (Vec3 7.25 0.25 7.25) 90 0 90 (Vec3 16.3 6.3 (- 1.55)),
      SetShaderTexture ''mb'',
      SetTextureUVScale 1 1,
      SetShaderMaterial u ''metal'',
      basicMeshes DrawBoxMesh,
      SetTransformations (Vec3 5.404 0.3 9.8) 90 0 0 (Vec3 13.5 5.75 8.649),
      SetShaderTexture ''metal'',
      SetTextureUVScale 1 1,
      SetShaderMaterial u ''metal'',
      basicMeshes DrawBoxMesh]"

definition RenderPCinterior :: "OBJECT_MATERIAL \<Rightarrow> scene_manager \<Rightarrow> fault + scene_manager" where
  "RenderPCinterior u = run_seq
     [SetTransformations (Vec3 1.3 1.3 1.3) 0 0 90 (Vec3 16.3 7.4 (- 1.7)),
      SetShaderTexture ''plastic'',
      SetTextureUVScale 1 1,
      SetShaderMaterial u ''plastic'',
      basicMeshes DrawCylinderMesh,
      SetTransformations (Vec3 1 1 1) 0 0 90 (Vec3 15.96 7.4 (- 1.7)),
      SetShaderTexture ''PKMN'',
      SetTextureUVScale 1 1,
      SetShaderMaterial u ''plastic'',
      basicMeshes DrawCylinderMesh,
      SetTransformations (Vec3 1 1 1) 90 90 90 (Vec3 15.1 7.4 (- 1.7)),
      SetShaderTexture ''plastic'',
      SetTextureUVScale 1 1,
      SetShaderMaterial u ''plastic'',
      basicMeshes DrawTorusMesh,
      SetTransformations (Vec3 4 1 0.2) 0 0 90 (Vec3 15.8 7.49 0.03),
      SetShaderTexture ''ram'',
      SetTextureUVScale 1 1,
      SetShaderMaterial u ''plastic'',
      basicMeshes DrawBoxMesh,
      SetTransformations (Vec3 4 1 0.2) 0 0 90 (Vec3 15.8 7.49 0.58),
      SetShaderTexture ''ram'',
      SetTextureUVScale 1 1,
      SetShaderMaterial u ''plastic'',
      basicMeshes DrawBoxMesh,
      SetTransformations (Vec3 0.2 4 0.2) 0 0 0 (Vec3 15.2 7.49 0.58),
      SetShaderTexture ''rgb'',
      SetTextureUVScale 1 1,
      SetShaderMaterial u ''plastic'',
      basicMeshes DrawBoxMesh,
      SetTransformations (Vec3 0.2 4 0.2) 0 0 0 (Vec3 15.2 7.49 0.03),
      SetShaderTexture ''rgb'',
      SetTextureUVScale 1 1,
      SetShaderMaterial u ''plastic'',
      basicMeshes DrawBoxMesh,
      SetTransformations (Vec3 1.2 4.6 0.9) 0 90 0 (Vec3 15.8 7.65 (- 4.58)),
      SetShaderTexture ''mbb'',
      SetTextureUVScale 1 1,
      SetShaderMaterial u ''metal'',
      basicMeshes DrawBoxMesh,
      SetTransformations (Vec3 1.3 4.7 1) 0 90 0 (Vec3 15.86 7.65 (- 4.58)),
      SetShaderTexture ''metal'',
      SetTextureUVScale 1 1,
      SetShaderMaterial u ''metal'',
      basicMeshes DrawBoxMesh,
      SetTransformations (Vec3 1.2 1.2 2) 0 0 90 (Vec3 13.5 5.75 8.649),
      SetShaderTexture ''pink'',
      SetTextureUVScale 1 1,
      SetShaderMaterial u ''wood'',
      basicMeshes DrawTorusMesh,
      SetTransformations (Vec3 1.2 1.2 2) 0 0 90 (Vec3 13.5 9 8.649),
      SetShaderTexture ''blue'',
      SetTextureUVScale 1 1,
      SetShaderMaterial u ''wood'',
      basicMeshes DrawTorusMesh,
      SetTransformations (Vec3 1.2 1.2 2) 0 0 90 (Vec3 13.5 2.5 8.649),
      SetShaderTexture ''blue'',
      SetTextureUVScale 1 1,
      SetShaderMaterial u ''wood'',
      basicMeshes DrawTorusMesh,
      SetTransformations (Vec3 5 2 12) 0 0 0 (Vec3 13.8 1.7 0.7),
      SetShaderTexture ''metal'',
      SetTextureUVScale 1 1,
      SetShaderMaterial u ''metal'',
      basicMeshes DrawBoxMesh]"

definition RenderGlass :: "OBJECT_MATERIAL \<Rightarrow> scene_manager \<Rightarrow> fault + scene_manager" where
  "RenderGlass u = run_seq
     [SetTransformations (Vec3 14.5 0.3 9.8) 90 0 90 (Vec3 10.65 5.75 2.05),
      SetShaderColor 0.7 0.7 0.8 0.3,
      SetShaderMaterial u ''glass'',
      basicMeshes DrawBoxMesh,
      SetTransformations (Vec3 5.404 0.05 9.8) 90 0 0 (Vec3 13.5 5.75 9.289),
      SetShaderColor 0.7 0.7 0.8 0.3,
      SetShaderMaterial u ''glass'',
      basicMeshes DrawBoxMesh]"

definition RenderScene :: "OBJECT_MATERIAL \<Rightarrow> scene_manager \<Rightarrow> fault + scene_manager" where
  "RenderScene u = run_seq
     [RenderDeskandwalls u,
      RenderKeyboardandmat u,
      RenderMouse u,
      RenderPCexterior u,
      RenderPCinterior u,
      RenderMonitor u,
      RenderGlass u]"

subsection \<open>Notions used to state the properties\<close>

text \<open>The calls \<^verbatim>\<open>BindGLTextures\<close> makes for the entries \<open>i..<n\<close>, in order.\<close>

definition bind_calls :: "TEXTURE_INFO list \<Rightarrow> nat \<Rightarrow> nat \<Rightarrow> gl_call list" where
  "bind_calls ids i n =
     concat (map (\<lambda>j. [ActiveTexture j, BindTexture GL_TEXTURE_2D (ID (ids ! j))]) [i..<n])"

text \<open>The \<open>n\<close> generation calls that follow the state \<open>g\<close> of the context.\<close>

definition gen_calls :: "gl_context \<Rightarrow> nat \<Rightarrow> gl_call list" where
  "gen_calls g n = map (\<lambda>j. GenTextures (gl_names g (gl_generated g + j))) [0..<n]"

text \<open>A file that the decoder reads as a 3- or 4-channel image.\<close>

definition decodes_supported :: "decoder \<Rightarrow> string \<Rightarrow> bool" where
  "decodes_supported stbi_load filename =
     (case stbi_load filename of
        None \<Rightarrow> False
      | Some img \<Rightarrow> colorChannels img = 3 \<or> colorChannels img = 4)"

text \<open>
  The matrices the specification names, written out from its words: a translation by a
  vector, the rotations about the X, Y and Z axes by an angle in degrees, and a scaling.
\<close>

definition Translate :: "vec3 \<Rightarrow> mat4" where
  "Translate p = (case p of Vec3 x y z \<Rightarrow>
     Mat4 (Vec4 1 0 0 0) (Vec4 0 1 0 0) (Vec4 0 0 1 0) (Vec4 x y z 1))"

definition RotateX :: "real \<Rightarrow> mat4" where
  "RotateX degrees = (let a = degrees * pi / 180 in
     Mat4 (Vec4 1 0 0 0) (Vec4 0 (cos a) (sin a) 0) (Vec4 0 (- sin a) (cos a) 0) (Vec4 0 0 0 1))"

definition RotateY :: "real \<Rightarrow> mat4" where
  "RotateY degrees = (let a = degrees * pi / 180 in
     Mat4 (Vec4 (cos a) 0 (- sin a) 0) (Vec4 0 1 0 0) (Vec4 (sin a) 0 (cos a) 0) (Vec4 0 0 0 1))"

definition RotateZ :: "real \<Rightarrow> mat4" where
  "RotateZ degrees = (let a = degrees * pi / 180 in
     Mat4 (Vec4 (cos a) (sin a) 0 0) (Vec4 (- sin a) (cos a) 0 0) (Vec4 0 0 1 0) (Vec4 0 0 0 1))"

definition Scale :: "vec3 \<Rightarrow> mat4" where
  "Scale v = (case v of Vec3 x y z \<Rightarrow>
     Mat4 (Vec4 x 0 0 0) (Vec4 0 y 0 0) (Vec4 0 0 z 0) (Vec4 0 0 0 1))"

text \<open>The five uploads of \<^verbatim>\<open>SetShaderMaterial\<close> for a material.\<close>

definition material_uploads :: "OBJECT_MATERIAL \<Rightarrow> (string \<times> uniform_value) list" where
  "material_uploads material =
     [(''material.ambientColor'', Vec3Value (ambientColor material)),
      (''material.ambientStrength'', FloatValue (ambientStrength material)),
      (''material.diffuseColor'', Vec3Value (diffuseColor material)),
      (''material.specularColor'', Vec3Value (specularColor material)),
      (''material.shininess'', FloatValue (shininess material))]"

text \<open>
  What the glass pass uploads when both of its \<^verbatim>\<open>SetShaderMaterial\<close> calls upload the
  properties of \<open>material\<close>.
\<close>

definition glass_pass_uploads :: "OBJECT_MATERIAL \<Rightarrow> (string \<times> uniform_value) list" where
  "glass_pass_uploads material =
     [(''model'', Mat4Value (modelView (Vec3 14.5 0.3 9.8) 90 0 90 (Vec3 10.65 5.75 2.05))),
      (''bUseTexture'', IntValue 0),
      (''objectColor'', Vec4Value (Vec4 0.7 0.7 0.8 0.3))]
     @ material_uploads material @
     [(''model'', Mat4Value (modelView (Vec3 5.404 0.05 9.8) 90 0 0 (Vec3 13.5 5.75 9.289))),
      (''bUseTexture'', IntValue 0),
      (''objectColor'', Vec4Value (Vec4 0.7 0.7 0.8 0.3))]
     @ material_uploads material"

text \<open>
  A call is steady when, on a state with a shader and a loaded count within the table, it
  returns, only appends to the shader's uploads and leaves both registries as they are.
\<close>

definition steady :: "(scene_manager \<Rightarrow> fault + scene_manager) \<Rightarrow> bool" where
  "steady f \<longleftrightarrow>
     (\<forall>s sh. m_pShaderManager s = Some sh \<and> m_loadedTextures s \<le> length (m_textureIDs s) \<longrightarrow>
        (\<exists>out s'. f s = Inr s' \<and> m_pShaderManager s' = Some (sh @ out)
           \<and> m_loadedTextures s' = m_loadedTextures s
           \<and> m_textureIDs s' = m_textureIDs s
           \<and> m_objectMaterials s' = m_objectMaterials s))"

text \<open>
  Two states with the same registries, and two calls that, started on such states, both
  return, append the same uploads and keep the registries. \<open>M\<close> is the material registry.
\<close>

definition same_registries :: "scene_manager \<Rightarrow> scene_manager \<Rightarrow> bool" where
  "same_registries s t \<longleftrightarrow>
     m_loadedTextures s = m_loadedTextures t \<and> m_textureIDs s = m_textureIDs t \<and>
     m_objectMaterials s = m_objectMaterials t"

definition twin ::
  "OBJECT_MATERIAL list \<Rightarrow> (scene_manager \<Rightarrow> fault + scene_manager) \<Rightarrow>
   (scene_manager \<Rightarrow> fault + scene_manager) \<Rightarrow> bool"
where
  "twin M f g \<longleftrightarrow>
     (\<forall>s t shs sht.
        m_pShaderManager s = Some shs \<and> m_pShaderManager t = Some sht \<and>
        m_loadedTextures s \<le> length (m_textureIDs s) \<and> same_registries s t \<and>
        m_objectMaterials s = M \<longrightarrow>
        (\<exists>out s' t'. f s = Inr s' \<and> g t = Inr t' \<and>
           m_pShaderManager s' = Some (shs @ out) \<and> m_pShaderManager t' = Some (sht @ out) \<and>
           same_registries s' s \<and> same_registries t' t))"

text \<open>A material registry that defines every tag the Render sequence asks for.\<close>

definition defines_all :: "OBJECT_MATERIAL list \<Rightarrow> bool" where
  "defines_all M \<longleftrightarrow>
     list_all (\<lambda>tg. tg \<in> set (map OBJECT_MATERIAL.tag M))
       [''metal'', ''wood'', ''walls'', ''plastic'', ''glass'']"

subsection \<open>Concrete inputs\<close>

text \<open>Small concrete values on which the theorems below are exercised.\<close>

definition local_material :: OBJECT_MATERIAL where
  "local_material =
     \<lparr>ambientColor = Vec3 1 2 3, ambientStrength = 4, diffuseColor = Vec3 5 6 7,
      specularColor = Vec3 8 9 10, shininess = 11, tag = ''local''\<rparr>"

definition metal_entry :: OBJECT_MATERIAL where
  "metal_entry =
     \<lparr>ambientColor = Vec3 0.2 0.2 0.2, ambientStrength = 0.3,
      diffuseColor = Vec3 0.2 0.2 0.2, specularColor = Vec3 0.5 0.5 0.5,
      shininess = 25, tag = ''metal''\<rparr>"

definition glass_A :: OBJECT_MATERIAL where
  "glass_A =
     \<lparr>ambientColor = Vec3 0.4 0.4 0.4, ambientStrength = 0.3,
      diffuseColor = Vec3 0.3 0.3 0.3, specularColor = Vec3 0.6 0.6 0.6,
      shininess = 85, tag = ''glass''\<rparr>"

definition glass_B :: OBJECT_MATERIAL where
  "glass_B =
     \<lparr>ambientColor = Vec3 0 0 0, ambientStrength = 0, diffuseColor = Vec3 0 0 0,
      specularColor = Vec3 0 0 0, shininess = 0, tag = ''glass''\<rparr>"

text \<open>A driver that hands out the names 1, 2, 3, ...; a context that has made no call.\<close>

definition driver_names :: "nat \<Rightarrow> GLuint" where
  "driver_names n = of_nat (n + 1)"

definition gl_initial :: gl_context where
  "gl_initial =
     \<lparr>gl_calls = [], gl_names = driver_names, gl_generated = 0, gl_active = 0,
      gl_bound = (\<lambda>unit. 0)\<rparr>"

definition rgb_image :: image where
  "rgb_image = \<lparr>width = 2, height = 2, colorChannels = 3, pixels = []\<rparr>"

definition gray_image :: image where
  "gray_image = \<lparr>width = 2, height = 2, colorChannels = 1, pixels = []\<rparr>"

text \<open>
  A driver whose every name is \<open>0xFFFFFFFF\<close>, and a decoder that reads every file as the
  3-channel image.
\<close>

definition sentinel_driver :: gl_context where
  "sentinel_driver = gl_initial\<lparr>gl_names := (\<lambda>n. - 1)\<rparr>"

definition decode_rgb :: decoder where
  "decode_rgb filename = Some rgb_image"

text \<open>The state after two loads, of ''plastic'' and of ''wood''.\<close>

definition two_loaded :: scene_manager where
  "two_loaded =
     \<lparr>m_pShaderManager = Some [],
      m_basicMeshes = [],
      m_loadedTextures = 2,
      m_textureIDs =
        [\<lparr>TEXTURE_INFO.tag = ''plastic'', ID = 1\<rparr>, \<lparr>TEXTURE_INFO.tag = ''wood'', ID = 2\<rparr>]
        @ replicate 14 \<lparr>TEXTURE_INFO.tag = ''/0'', ID = - 1\<rparr>,
      m_objectMaterials = [],
      gl = gl_initial\<lparr>gl_generated := 2\<rparr>\<rparr>"


text \<open>The state after the constructor (with a shader) and \<^verbatim>\<open>DefineObjectMaterials\<close>.\<close>

definition after_setup :: scene_manager where
  "after_setup = DefineObjectMaterials (SceneManager (Some []) gl_initial)"

section \<open>Material registry lookup\<close>

lemma FindMaterial_loop_found:
  "FindMaterial_loop ms tg index True material = (True, material)"
  by (simp add: FindMaterial_loop.simps)

lemma FindMaterial_loop_no_match:
  "\<forall>i. index \<le> i \<and> i < length ms \<longrightarrow> OBJECT_MATERIAL.tag (ms ! i) \<noteq> tg \<Longrightarrow>
   FindMaterial_loop ms tg index False material = (False, material)"
proof (induction "length ms - index" arbitrary: index)
  case 0
  then show ?case by (simp add: FindMaterial_loop.simps)
next
  case (Suc n)
  from Suc.hyps(2) have lt: "index < length ms" by simp
  with Suc.prems have ne: "OBJECT_MATERIAL.tag (ms ! index) \<noteq> tg" by simp
  have "FindMaterial_loop ms tg (index + 1) False material = (False, material)"
    using Suc.hyps(1) [of "index + 1"] Suc.hyps(2) Suc.prems by simp
  with lt ne show ?case
    by (subst FindMaterial_loop.simps) simp
qed

lemma absent_tag_nth:
  assumes "tg \<notin> set (map OBJECT_MATERIAL.tag ms)"
  shows "\<forall>i<length ms. OBJECT_MATERIAL.tag (ms ! i) \<noteq> tg"
proof (intro allI impI)
  fix i assume "i < length ms"
  then have "ms ! i \<in> set ms" by (rule nth_mem)
  then have "OBJECT_MATERIAL.tag (ms ! i) \<in> set (map OBJECT_MATERIAL.tag ms)" by simp
  with assms show "OBJECT_MATERIAL.tag (ms ! i) \<noteq> tg" by metis
qed

lemma FindMaterial_loop_absent:
  "tg \<notin> set (map OBJECT_MATERIAL.tag ms) \<Longrightarrow>
   FindMaterial_loop ms tg 0 False material = (False, material)"
  using absent_tag_nth [of tg ms] by (intro FindMaterial_loop_no_match) simp

lemma FindMaterial_loop_first_match:
  "index \<le> k \<Longrightarrow> k < length ms \<Longrightarrow> OBJECT_MATERIAL.tag (ms ! k) = tg \<Longrightarrow>
   \<forall>i. index \<le> i \<and> i < k \<longrightarrow> OBJECT_MATERIAL.tag (ms ! i) \<noteq> tg \<Longrightarrow>
   FindMaterial_loop ms tg index False material = (True, copy_properties (ms ! k) material)"
proof (induction "k - index" arbitrary: index)
  case 0
  then have "index = k" by simp
  with 0 show ?case
    by (subst FindMaterial_loop.simps)
       (simp add: FindMaterial_loop_found copy_properties_def)
next
  case (Suc n)
  from Suc.hyps(2) have lt: "index < k" by simp
  with Suc.prems have ne: "OBJECT_MATERIAL.tag (ms ! index) \<noteq> tg" by simp
  have "FindMaterial_loop ms tg (index + 1) False material
          = (True, copy_properties (ms ! k) material)"
    using Suc.hyps(1) [of "index + 1"] Suc.hyps(2) Suc.prems by simp
  with lt ne Suc.prems(2) show ?case
    by (subst FindMaterial_loop.simps) simp
qed

text \<open>
  C1. For every tag, \<^verbatim>\<open>FindMaterial\<close> on an empty registry returns \<^verbatim>\<open>false\<close> and leaves
  the output parameter as it was; on a non-empty registry it returns \<^verbatim>\<open>true\<close>, also when
  no entry's tag matches after the full scan (the output parameter is then untouched as
  well). So the returned flag is true exactly when the registry is non-empty.
\<close>

theorem FindMaterial_found_iff_nonempty:
  "fst (FindMaterial ms tg material) = (ms \<noteq> [])
   \<and> (ms = [] \<longrightarrow> FindMaterial ms tg material = (False, material))
   \<and> (ms \<noteq> [] \<and> tg \<notin> set (map OBJECT_MATERIAL.tag ms)
        \<longrightarrow> FindMaterial ms tg material = (True, material))"
proof -
  have "FindMaterial_loop ms tg 0 False material = (False, material)"
    if "tg \<notin> set (map OBJECT_MATERIAL.tag ms)"
    using that by (rule FindMaterial_loop_absent)
  then show ?thesis
    by (auto simp: FindMaterial_def)
qed

theorem FindMaterial_found_iff_nonempty_witness:
  "FindMaterial [] ''glass'' local_material = (False, local_material)
   \<and> FindMaterial [metal_entry] ''glass'' local_material = (True, local_material)"
  using FindMaterial_found_iff_nonempty [of "[]" "''glass''" local_material]
    FindMaterial_found_iff_nonempty [of "[metal_entry]" "''glass''" local_material]
  by (simp add: metal_entry_def)

lemma FindMaterial_nonempty:
  "ms \<noteq> [] \<Longrightarrow>
   FindMaterial ms tg material = (True, snd (FindMaterial_loop ms tg 0 False material))"
  by (simp add: FindMaterial_def)

text \<open>
  C6. For every tag and all material records \<open>A\<close> and \<open>B\<close> carrying it: when \<open>A\<close> is the
  first definition of the tag (no earlier entry of the registry has it), appending \<open>A\<close>,
  then appending \<open>B\<close>, then looking the tag up returns \<^verbatim>\<open>true\<close> and copies the
  properties of \<open>A\<close> into the output parameter; the properties of \<open>B\<close> are not read.
\<close>

theorem first_definition_wins:
  assumes "tg \<notin> set (map OBJECT_MATERIAL.tag ms)"
    and "OBJECT_MATERIAL.tag A = tg" and "OBJECT_MATERIAL.tag B = tg"
  shows "FindMaterial (push_back (push_back ms A) B) tg material
           = (True, copy_properties A material)"
proof -
  let ?xs = "push_back (push_back ms A) B"
  have len: "length ms < length ?xs" and nth: "?xs ! length ms = A"
    by (simp_all add: push_back_def nth_append)
  have before: "\<forall>i. 0 \<le> i \<and> i < length ms \<longrightarrow> OBJECT_MATERIAL.tag (?xs ! i) \<noteq> tg"
    using assms(1) by (auto simp: push_back_def nth_append)
  have "FindMaterial_loop ?xs tg 0 False material
          = (True, copy_properties (?xs ! length ms) material)"
    using len nth assms(2) before by (intro FindMaterial_loop_first_match) simp_all
  then show ?thesis
    by (simp add: FindMaterial_nonempty nth push_back_def)
qed

theorem first_definition_wins_witness:
  "FindMaterial (push_back (push_back [metal_entry] glass_A) glass_B) ''glass'' local_material
     = (True, copy_properties glass_A local_material)
   \<and> copy_properties glass_A local_material \<noteq> copy_properties glass_B local_material"
  using first_definition_wins [of "''glass''" "[metal_entry]" glass_A glass_B local_material]
  by (simp add: metal_entry_def glass_A_def glass_B_def copy_properties_def
      local_material_def)

section \<open>Texture registry: load and lookup\<close>

lemma CreateGLTexture_unsupported:
  assumes "stbi_load filename = Some img"
    and "colorChannels img \<noteq> 3" and "colorChannels img \<noteq> 4"
  shows "\<exists>s'. CreateGLTexture stbi_load filename tg s = Inr (False, s')
           \<and> m_loadedTextures s' = m_loadedTextures s
           \<and> m_textureIDs s' = m_textureIDs s
           \<and> m_objectMaterials s' = m_objectMaterials s"
  using assms by (simp add: CreateGLTexture_def Let_def split: prod.splits)

lemma CreateGLTexture_supported:
  assumes "stbi_load filename = Some img"
    and "colorChannels img = 3 \<or> colorChannels img = 4"
    and "m_loadedTextures s < length (m_textureIDs s)"
  shows "\<exists>g'. CreateGLTexture stbi_load filename tg s =
           Inr (True, s\<lparr>m_textureIDs := (m_textureIDs s)
                  [m_loadedTextures s :=
                     \<lparr>TEXTURE_INFO.tag = tg, ID = gl_names (gl s) (gl_generated (gl s))\<rparr>],
                m_loadedTextures := m_loadedTextures s + 1,
                gl := g'\<rparr>)"
  using assms by (auto simp add: CreateGLTexture_def Let_def glGenTextures_def split: prod.splits)

text \<open>
  C3. For every decoded image whose channel count is neither 3 nor 4,
  \<^verbatim>\<open>CreateGLTexture\<close> returns \<^verbatim>\<open>false\<close> and the registry is as before: the count of
  loaded textures and every entry of the table are unchanged.
\<close>

theorem unsupported_channels_fail:
  assumes "stbi_load filename = Some img"
    and "colorChannels img \<noteq> 3" and "colorChannels img \<noteq> 4"
  shows "\<exists>s'. CreateGLTexture stbi_load filename tg s = Inr (False, s')
           \<and> m_loadedTextures s' = m_loadedTextures s
           \<and> m_textureIDs s' = m_textureIDs s"
  using assms by (simp add: CreateGLTexture_def Let_def split: prod.splits)

theorem unsupported_channels_fail_witness:
  "\<exists>s'. CreateGLTexture (\<lambda>f. Some gray_image) ''textures/gray.jpg'' ''gray'' two_loaded
           = Inr (False, s')
         \<and> m_loadedTextures s' = 2
         \<and> m_textureIDs s' = m_textureIDs two_loaded"
  using unsupported_channels_fail [of "\<lambda>f. Some gray_image" "''textures/gray.jpg''"
      gray_image "''gray''" two_loaded]
  by (simp add: gray_image_def two_loaded_def)

lemma FindTextureSlot_loop_found:
  "FindTextureSlot_loop s tg index True textureSlot = Inr textureSlot"
  by (simp add: FindTextureSlot_loop.simps)

lemma FindTextureID_loop_found:
  "FindTextureID_loop s tg index True textureID = Inr textureID"
  by (simp add: FindTextureID_loop.simps)

lemma FindTextureSlot_loop_first_match:
  "index \<le> k \<Longrightarrow> k < m_loadedTextures s \<Longrightarrow> m_loadedTextures s \<le> length (m_textureIDs s) \<Longrightarrow>
   TEXTURE_INFO.tag (m_textureIDs s ! k) = tg \<Longrightarrow>
   \<forall>i. index \<le> i \<and> i < k \<longrightarrow> TEXTURE_INFO.tag (m_textureIDs s ! i) \<noteq> tg \<Longrightarrow>
   FindTextureSlot_loop s tg index False textureSlot = Inr (int k)"
proof (induction "k - index" arbitrary: index)
  case 0
  then have "index = k" by simp
  with 0 show ?case
    by (subst FindTextureSlot_loop.simps) (simp add: FindTextureSlot_loop_found)
next
  case (Suc n)
  from Suc.hyps(2) have lt: "index < k" by simp
  with Suc.prems have ne: "TEXTURE_INFO.tag (m_textureIDs s ! index) \<noteq> tg" by simp
  have "FindTextureSlot_loop s tg (index + 1) False textureSlot = Inr (int k)"
    using Suc.hyps(1) [of "index + 1"] Suc.hyps(2) Suc.prems by simp
  with lt ne Suc.prems(2,3) show ?case
    by (subst FindTextureSlot_loop.simps) simp
qed

lemma FindTextureID_loop_first_match:
  "index \<le> k \<Longrightarrow> k < m_loadedTextures s \<Longrightarrow> m_loadedTextures s \<le> length (m_textureIDs s) \<Longrightarrow>
   TEXTURE_INFO.tag (m_textureIDs s ! k) = tg \<Longrightarrow>
   \<forall>i. index \<le> i \<and> i < k \<longrightarrow> TEXTURE_INFO.tag (m_textureIDs s ! i) \<noteq> tg \<Longrightarrow>
   FindTextureID_loop s tg index False textureID = Inr (sint (ID (m_textureIDs s ! k)))"
proof (induction "k - index" arbitrary: index)
  case 0
  then have "index = k" by simp
  with 0 show ?case
    by (subst FindTextureID_loop.simps) (simp add: FindTextureID_loop_found)
next
  case (Suc n)
  from Suc.hyps(2) have lt: "index < k" by simp
  with Suc.prems have ne: "TEXTURE_INFO.tag (m_textureIDs s ! index) \<noteq> tg" by simp
  have "FindTextureID_loop s tg (index + 1) False textureID
          = Inr (sint (ID (m_textureIDs s ! k)))"
    using Suc.hyps(1) [of "index + 1"] Suc.hyps(2) Suc.prems by simp
  with lt ne Suc.prems(2,3) show ?case
    by (subst FindTextureID_loop.simps) simp
qed

lemma FindTextureSlot_loop_no_match:
  "m_loadedTextures s \<le> length (m_textureIDs s) \<Longrightarrow>
   \<forall>i. index \<le> i \<and> i < m_loadedTextures s \<longrightarrow> TEXTURE_INFO.tag (m_textureIDs s ! i) \<noteq> tg \<Longrightarrow>
   FindTextureSlot_loop s tg index False textureSlot = Inr textureSlot"
proof (induction "m_loadedTextures s - index" arbitrary: index)
  case 0
  then show ?case by (simp add: FindTextureSlot_loop.simps)
next
  case (Suc n)
  from Suc.hyps(2) have lt: "index < m_loadedTextures s" by simp
  with Suc.prems have ne: "TEXTURE_INFO.tag (m_textureIDs s ! index) \<noteq> tg" by simp
  have "FindTextureSlot_loop s tg (index + 1) False textureSlot = Inr textureSlot"
    using Suc.hyps(1) [of "index + 1"] Suc.hyps(2) Suc.prems by simp
  with lt ne Suc.prems(1) show ?case
    by (subst FindTextureSlot_loop.simps) simp
qed

lemma first_index_exists:
  fixes k :: nat
  assumes "P k"
  shows "\<exists>j\<le>k. P j \<and> (\<forall>i<j. \<not> P i)"
proof -
  have "P (LEAST j. P j)" using assms by (rule LeastI)
  moreover have "(LEAST j. P j) \<le> k" using assms by (rule Least_le)
  moreover have "\<forall>i<(LEAST j. P j). \<not> P i" using not_less_Least by blast
  ultimately show ?thesis by blast
qed

lemma sint_minus1_iff: "sint (w :: 32 word) = - 1 \<longleftrightarrow> w = - 1"
  using word_eq_iff_signed [of w "- 1", where ?'a = int] by simp

lemma CreateGLTexture_full_table:
  assumes "stbi_load filename = Some img"
    and "colorChannels img = 3 \<or> colorChannels img = 4"
    and "\<not> m_loadedTextures s < length (m_textureIDs s)"
  shows "CreateGLTexture stbi_load filename tg s = Inl OutOfBounds"
  using assms by (auto simp add: CreateGLTexture_def Let_def glGenTextures_def split: prod.splits)

text \<open>
  C4. For every decoded 3- or 4-channel image loaded under a tag: when the table has a free
  slot the load returns \<^verbatim>\<open>true\<close> and stores the tag with the driver's new handle at
  index \<open>loadedCount\<close>; afterwards \<^verbatim>\<open>FindTextureSlot\<close> of the tag returns the index \<open>j\<close> of
  the first entry that carries the tag, which lies in \<open>[0, loadedCount)\<close> and is the new
  entry's index exactly when no earlier entry has the tag, and \<^verbatim>\<open>FindTextureID\<close> of the
  tag returns the handle of entry \<open>j\<close> read as an \<^verbatim>\<open>int\<close>. That value is the sentinel
  \<open>-1\<close> exactly when the handle is \<open>0xFFFFFFFF\<close>. When the table is full the load writes
  outside it.
\<close>

theorem load_then_find_first_entry:
  assumes dec: "stbi_load filename = Some img"
    and ch: "colorChannels img = 3 \<or> colorChannels img = 4"
  shows "if m_loadedTextures s < length (m_textureIDs s) then
           \<exists>s' j. CreateGLTexture stbi_load filename tg s = Inr (True, s')
             \<and> m_loadedTextures s' = m_loadedTextures s + 1
             \<and> m_textureIDs s' = (m_textureIDs s)
                  [m_loadedTextures s :=
                     \<lparr>TEXTURE_INFO.tag = tg, ID = gl_names (gl s) (gl_generated (gl s))\<rparr>]
             \<and> j < m_loadedTextures s'
             \<and> TEXTURE_INFO.tag (m_textureIDs s' ! j) = tg
             \<and> (\<forall>i<j. TEXTURE_INFO.tag (m_textureIDs s' ! i) \<noteq> tg)
             \<and> (j = m_loadedTextures s \<longleftrightarrow>
                  (\<forall>i<m_loadedTextures s. TEXTURE_INFO.tag (m_textureIDs s ! i) \<noteq> tg))
             \<and> FindTextureSlot s' tg = Inr (int j)
             \<and> FindTextureID s' tg = Inr (sint (ID (m_textureIDs s' ! j)))
             \<and> (FindTextureID s' tg = Inr (- 1) \<longleftrightarrow> ID (m_textureIDs s' ! j) = - 1)
         else CreateGLTexture stbi_load filename tg s = Inl OutOfBounds"
proof (cases "m_loadedTextures s < length (m_textureIDs s)")
  case False
  with CreateGLTexture_full_table [of stbi_load filename img s tg] dec ch
  show ?thesis by simp
next
  case lt: True
  let ?n = "m_loadedTextures s"
  let ?h = "gl_names (gl s) (gl_generated (gl s))"
  from dec ch lt CreateGLTexture_supported [of stbi_load filename img s tg]
  obtain g' where cr: "CreateGLTexture stbi_load filename tg s = Inr (True,
      s\<lparr>m_textureIDs := (m_textureIDs s)[?n := \<lparr>TEXTURE_INFO.tag = tg, ID = ?h\<rparr>],
        m_loadedTextures := ?n + 1, gl := g'\<rparr>)" (is "_ = Inr (True, ?s')")
    by blast
  have n': "m_loadedTextures ?s' = ?n + 1"
    and tab: "m_textureIDs ?s' = (m_textureIDs s)[?n := \<lparr>TEXTURE_INFO.tag = tg, ID = ?h\<rparr>]"
    by simp_all
  have le: "m_loadedTextures ?s' \<le> length (m_textureIDs ?s')" using lt by simp
  have nth_new: "m_textureIDs ?s' ! ?n = \<lparr>TEXTURE_INFO.tag = tg, ID = ?h\<rparr>"
    using lt by simp
  have nth_old: "m_textureIDs ?s' ! i = m_textureIDs s ! i" if "i < ?n" for i
    using that by simp
  have "TEXTURE_INFO.tag (m_textureIDs ?s' ! ?n) = tg" using nth_new by simp
  from first_index_exists [where P = "\<lambda>j. TEXTURE_INFO.tag (m_textureIDs ?s' ! j) = tg",
      OF this]
  obtain j where j: "j \<le> ?n" "TEXTURE_INFO.tag (m_textureIDs ?s' ! j) = tg"
    "\<forall>i<j. TEXTURE_INFO.tag (m_textureIDs ?s' ! i) \<noteq> tg"
    by auto
  have jlt: "j < m_loadedTextures ?s'" using j(1) by simp
  have fresh: "j = ?n \<longleftrightarrow> (\<forall>i<?n. TEXTURE_INFO.tag (m_textureIDs s ! i) \<noteq> tg)"
  proof
    assume "j = ?n"
    with j(3) nth_old show "\<forall>i<?n. TEXTURE_INFO.tag (m_textureIDs s ! i) \<noteq> tg" by simp
  next
    assume a: "\<forall>i<?n. TEXTURE_INFO.tag (m_textureIDs s ! i) \<noteq> tg"
    show "j = ?n"
    proof (rule ccontr)
      assume "j \<noteq> ?n"
      with j(1) have "j < ?n" by simp
      with a nth_old have "TEXTURE_INFO.tag (m_textureIDs ?s' ! j) \<noteq> tg" by simp
      with j(2) show False by simp
    qed
  qed
  have slot: "FindTextureSlot ?s' tg = Inr (int j)"
    unfolding FindTextureSlot_def
    using jlt le j(2,3) by (intro FindTextureSlot_loop_first_match) simp_all
  have hid: "FindTextureID ?s' tg = Inr (sint (ID (m_textureIDs ?s' ! j)))"
    unfolding FindTextureID_def
    using jlt le j(2,3) by (intro FindTextureID_loop_first_match) simp_all
  have sentinel: "FindTextureID ?s' tg = Inr (- 1) \<longleftrightarrow> ID (m_textureIDs ?s' ! j) = - 1"
    using hid by (simp add: sint_minus1_iff)
  have "\<exists>s' j. CreateGLTexture stbi_load filename tg s = Inr (True, s')
             \<and> m_loadedTextures s' = m_loadedTextures s + 1
             \<and> m_textureIDs s' = (m_textureIDs s)
                  [m_loadedTextures s :=
                     \<lparr>TEXTURE_INFO.tag = tg, ID = gl_names (gl s) (gl_generated (gl s))\<rparr>]
             \<and> j < m_loadedTextures s'
             \<and> TEXTURE_INFO.tag (m_textureIDs s' ! j) = tg
             \<and> (\<forall>i<j. TEXTURE_INFO.tag (m_textureIDs s' ! i) \<noteq> tg)
             \<and> (j = m_loadedTextures s \<longleftrightarrow>
                  (\<forall>i<m_loadedTextures s. TEXTURE_INFO.tag (m_textureIDs s ! i) \<noteq> tg))
             \<and> FindTextureSlot s' tg = Inr (int j)
             \<and> FindTextureID s' tg = Inr (sint (ID (m_textureIDs s' ! j)))
             \<and> (FindTextureID s' tg = Inr (- 1) \<longleftrightarrow> ID (m_textureIDs s' ! j) = - 1)"
    using cr n' tab jlt j(2,3) fresh slot hid sentinel
    by (intro exI [of _ ?s'] exI [of _ j] conjI) 
  with lt show ?thesis by simp
qed

theorem load_then_find_first_entry_witness:
  "\<exists>s'. CreateGLTexture (\<lambda>f. Some rgb_image) ''textures/greywall.jpg'' ''wall'' two_loaded
           = Inr (True, s')
     \<and> m_loadedTextures s' = 3
     \<and> FindTextureSlot s' ''wall'' = Inr 2
     \<and> FindTextureID s' ''wall'' = Inr 3"
proof -
  have ch: "colorChannels rgb_image = 3 \<or> colorChannels rgb_image = 4"
    by (simp add: rgb_image_def)
  have cap: "m_loadedTextures two_loaded < length (m_textureIDs two_loaded)"
    by (simp add: two_loaded_def)
  have fresh: "\<forall>i<m_loadedTextures two_loaded.
      TEXTURE_INFO.tag (m_textureIDs two_loaded ! i) \<noteq> ''wall''"
    by (simp add: two_loaded_def less_Suc_eq numeral_2_eq_2)
  have dec: "(\<lambda>f. Some rgb_image) ''textures/greywall.jpg'' = Some rgb_image" by simp
  have "\<exists>s' j. CreateGLTexture (\<lambda>f. Some rgb_image) ''textures/greywall.jpg''
        ''wall'' two_loaded = Inr (True, s')
      \<and> m_loadedTextures s' = m_loadedTextures two_loaded + 1
      \<and> m_textureIDs s' = (m_textureIDs two_loaded)
        [m_loadedTextures two_loaded :=
           \<lparr>TEXTURE_INFO.tag = ''wall'',
            ID = gl_names (gl two_loaded) (gl_generated (gl two_loaded))\<rparr>]
      \<and> j < m_loadedTextures s'
      \<and> TEXTURE_INFO.tag (m_textureIDs s' ! j) = ''wall''
      \<and> (\<forall>i<j. TEXTURE_INFO.tag (m_textureIDs s' ! i) \<noteq> ''wall'')
      \<and> (j = m_loadedTextures two_loaded \<longleftrightarrow>
        (\<forall>i<m_loadedTextures two_loaded.
           TEXTURE_INFO.tag (m_textureIDs two_loaded ! i) \<noteq> ''wall''))
      \<and> FindTextureSlot s' ''wall'' = Inr (int j)
      \<and> FindTextureID s' ''wall'' = Inr (sint (ID (m_textureIDs s' ! j)))
      \<and> (FindTextureID s' ''wall'' = Inr (- 1) \<longleftrightarrow> ID (m_textureIDs s' ! j) = - 1)"
    using load_then_find_first_entry [where stbi_load = "\<lambda>f. Some rgb_image"
      and filename = "''textures/greywall.jpg''" and img = rgb_image and s = two_loaded
      and tg = "''wall''", OF dec ch] cap
    by (simp only: if_True)
  then obtain s' j where s': "CreateGLTexture (\<lambda>f. Some rgb_image) ''textures/greywall.jpg''
        ''wall'' two_loaded = Inr (True, s')"
    "m_loadedTextures s' = m_loadedTextures two_loaded + 1"
    "m_textureIDs s' = (m_textureIDs two_loaded)
        [m_loadedTextures two_loaded :=
           \<lparr>TEXTURE_INFO.tag = ''wall'',
            ID = gl_names (gl two_loaded) (gl_generated (gl two_loaded))\<rparr>]"
    "j = m_loadedTextures two_loaded \<longleftrightarrow>
        (\<forall>i<m_loadedTextures two_loaded.
           TEXTURE_INFO.tag (m_textureIDs two_loaded ! i) \<noteq> ''wall'')"
    "FindTextureSlot s' ''wall'' = Inr (int j)"
    "FindTextureID s' ''wall'' = Inr (sint (ID (m_textureIDs s' ! j)))"
    by blast
  from s'(4) fresh have j: "j = 2" by (simp add: two_loaded_def)
  have "ID (m_textureIDs s' ! 2) = 3"
    using s'(3) by (simp add: two_loaded_def gl_initial_def driver_names_def)
  with s' j show ?thesis
    by (intro exI [of _ s']) (simp add: two_loaded_def)
qed

text \<open>
  C4, the sentinel: a load that returns \<^verbatim>\<open>true\<close>, after which \<^verbatim>\<open>FindTextureID\<close> of the
  loaded tag returns \<open>-1\<close>. The driver's name for the texture was \<open>0xFFFFFFFF\<close>, so a
  handle different from \<open>-1\<close> does not hold of every successful load.
\<close>

theorem sentinel_handle_counterexample:
  "CreateGLTexture decode_rgb ''textures/wood_knots_seamlessr.jpg'' ''wood''
     (SceneManager None sentinel_driver)
   = Inr (True,
       snd (projr (CreateGLTexture decode_rgb ''textures/wood_knots_seamlessr.jpg''
         ''wood'' (SceneManager None sentinel_driver))))
   \<and> FindTextureID
       (snd (projr (CreateGLTexture decode_rgb ''textures/wood_knots_seamlessr.jpg''
         ''wood'' (SceneManager None sentinel_driver)))) ''wood''
     = Inr (- 1)"
proof -
  let ?s = "SceneManager None sentinel_driver"
  have dec: "decode_rgb ''textures/wood_knots_seamlessr.jpg'' = Some rgb_image"
    by (simp add: decode_rgb_def)
  have ch: "colorChannels rgb_image = 3 \<or> colorChannels rgb_image = 4"
    by (simp add: rgb_image_def)
  have cap: "m_loadedTextures ?s < length (m_textureIDs ?s)"
    by (simp add: SceneManager_def)
  from CreateGLTexture_supported [of decode_rgb "''textures/wood_knots_seamlessr.jpg''"
      rgb_image ?s "''wood''"] dec ch cap
  obtain g' where cr: "CreateGLTexture decode_rgb ''textures/wood_knots_seamlessr.jpg''
      ''wood'' ?s =
        Inr (True, ?s\<lparr>m_textureIDs := (m_textureIDs ?s)
                  [m_loadedTextures ?s :=
                     \<lparr>TEXTURE_INFO.tag = ''wood'', ID = gl_names (gl ?s) (gl_generated (gl ?s))\<rparr>],
                m_loadedTextures := m_loadedTextures ?s + 1,
                gl := g'\<rparr>)" (is "_ = Inr (True, ?s')")
    by auto
  have "FindTextureID_loop ?s' ''wood'' 0 False (- 1)
      = Inr (sint (ID (m_textureIDs ?s' ! 0)))"
    by (intro FindTextureID_loop_first_match) (simp_all add: SceneManager_def upt_rec)
  moreover have "ID (m_textureIDs ?s' ! 0) = - 1"
    by (simp add: SceneManager_def sentinel_driver_def gl_initial_def upt_rec)
  ultimately have "FindTextureID ?s' ''wood'' = Inr (- 1)"
    by (simp add: FindTextureID_def)
  with cr show ?thesis by simp
qed

section \<open>Binding and teardown\<close>

lemma BindGLTextures_loop_spec:
  "i \<le> m_loadedTextures s \<Longrightarrow> m_loadedTextures s \<le> length (m_textureIDs s) \<Longrightarrow>
   \<exists>g'. BindGLTextures_loop i s = Inr (s\<lparr>gl := g'\<rparr>)
     \<and> (\<forall>u. gl_bound g' u =
           (if i \<le> u \<and> u < m_loadedTextures s then ID (m_textureIDs s ! u)
            else gl_bound (gl s) u))
     \<and> gl_calls g' = gl_calls (gl s) @ bind_calls (m_textureIDs s) i (m_loadedTextures s)
     \<and> gl_names g' = gl_names (gl s) \<and> gl_generated g' = gl_generated (gl s)"
proof (induction "m_loadedTextures s - i" arbitrary: i s)
  case 0
  then have "i = m_loadedTextures s" by simp
  then show ?case
    by (subst BindGLTextures_loop.simps)
       (auto intro!: exI [of _ "gl s"] simp: bind_calls_def)
next
  case (Suc n)
  let ?N = "m_loadedTextures s"
  let ?s1 = "s\<lparr>gl := glBindTexture GL_TEXTURE_2D (ID (m_textureIDs s ! i))
                        (glActiveTexture i (gl s))\<rparr>"
  from Suc.hyps(2) have lt: "i < ?N" by simp
  with Suc.prems have inb: "i < length (m_textureIDs s)" by simp
  have step: "BindGLTextures_loop i s = BindGLTextures_loop (i + 1) ?s1"
    using lt inb by (subst BindGLTextures_loop.simps) simp
  have "n = m_loadedTextures ?s1 - (i + 1)" using Suc.hyps(2) by simp
  moreover have "i + 1 \<le> m_loadedTextures ?s1" using lt by simp
  moreover have "m_loadedTextures ?s1 \<le> length (m_textureIDs ?s1)" using Suc.prems by simp
  ultimately obtain g' where g':
    "BindGLTextures_loop (i + 1) ?s1 = Inr (?s1\<lparr>gl := g'\<rparr>)"
    "\<forall>u. gl_bound g' u =
           (if i + 1 \<le> u \<and> u < m_loadedTextures ?s1 then ID (m_textureIDs ?s1 ! u)
            else gl_bound (gl ?s1) u)"
    "gl_calls g' = gl_calls (gl ?s1) @ bind_calls (m_textureIDs ?s1) (i + 1) (m_loadedTextures ?s1)"
    "gl_names g' = gl_names (gl ?s1)" "gl_generated g' = gl_generated (gl ?s1)"
    using Suc.hyps(1) [of ?s1 "i + 1"] by blast
  have calls: "bind_calls (m_textureIDs s) i ?N =
      [ActiveTexture i, BindTexture GL_TEXTURE_2D (ID (m_textureIDs s ! i))]
      @ bind_calls (m_textureIDs s) (i + 1) ?N"
    using lt by (simp add: bind_calls_def upt_conv_Cons)
  have "BindGLTextures_loop i s = Inr (s\<lparr>gl := g'\<rparr>)"
    using step g'(1) by simp
  moreover have "\<forall>u. gl_bound g' u =
           (if i \<le> u \<and> u < ?N then ID (m_textureIDs s ! u) else gl_bound (gl s) u)"
    using g'(2) lt by (auto simp: glBindTexture_def glActiveTexture_def)
  moreover have "gl_calls g' = gl_calls (gl s) @ bind_calls (m_textureIDs s) i ?N"
    using g'(3) calls by (simp add: glBindTexture_def glActiveTexture_def)
  moreover have "gl_names g' = gl_names (gl s)" "gl_generated g' = gl_generated (gl s)"
    using g'(4,5) by (simp_all add: glBindTexture_def glActiveTexture_def)
  ultimately show ?case by blast
qed

text \<open>
  C5. With \<open>N\<close> textures loaded, \<^verbatim>\<open>BindGLTextures\<close> leaves the handle of entry \<open>i\<close> bound
  to texture unit \<open>i\<close> for every \<open>i < N\<close>, leaves every other unit as it was, and makes
  exactly the calls that select unit \<open>i\<close> and bind entry \<open>i\<close>, for \<open>i = 0, ..., N - 1\<close>.
\<close>

theorem BindGLTextures_unit_i_gets_entry_i:
  assumes "m_loadedTextures s = N" and "N \<le> length (m_textureIDs s)"
  shows "\<exists>g'. BindGLTextures s = Inr (s\<lparr>gl := g'\<rparr>)
     \<and> (\<forall>i. gl_bound g' i =
           (if i < N then ID (m_textureIDs s ! i) else gl_bound (gl s) i))
     \<and> gl_calls g' = gl_calls (gl s) @ bind_calls (m_textureIDs s) 0 N"
  using BindGLTextures_loop_spec [of 0 s] assms
  unfolding BindGLTextures_def by auto

theorem BindGLTextures_witness:
  "\<exists>g'. BindGLTextures two_loaded = Inr (two_loaded\<lparr>gl := g'\<rparr>)
     \<and> gl_bound g' 0 = 1 \<and> gl_bound g' 1 = 2 \<and> gl_bound g' 2 = 0
     \<and> gl_calls g' = [ActiveTexture 0, BindTexture GL_TEXTURE_2D 1,
                       ActiveTexture 1, BindTexture GL_TEXTURE_2D 2]"
proof -
  have two: "[0..<2] = [0, Suc 0]" by (simp add: upt_rec numeral_2_eq_2)
  from BindGLTextures_unit_i_gets_entry_i [of two_loaded 2]
  obtain g' where g': "BindGLTextures two_loaded = Inr (two_loaded\<lparr>gl := g'\<rparr>)"
    "\<forall>i. gl_bound g' i =
       (if i < 2 then ID (m_textureIDs two_loaded ! i) else gl_bound (gl two_loaded) i)"
    "gl_calls g' = gl_calls (gl two_loaded) @ bind_calls (m_textureIDs two_loaded) 0 2"
    by (auto simp: two_loaded_def)
  from g'(2) have "gl_bound g' 0 = 1" "gl_bound g' 1 = 2" "gl_bound g' 2 = 0"
    by (simp_all add: two_loaded_def gl_initial_def)
  moreover from g'(3) have "gl_calls g' = [ActiveTexture 0, BindTexture GL_TEXTURE_2D 1,
                       ActiveTexture 1, BindTexture GL_TEXTURE_2D 2]"
    by (simp add: two_loaded_def gl_initial_def bind_calls_def two)
  ultimately show ?thesis using g'(1) by blast
qed

lemma DestroyGLTextures_loop_spec:
  "i \<le> m_loadedTextures s \<Longrightarrow> m_loadedTextures s \<le> length (m_textureIDs s) \<Longrightarrow>
   \<exists>s'. DestroyGLTextures_loop i s = Inr s'
     \<and> m_loadedTextures s' = m_loadedTextures s
     \<and> length (m_textureIDs s') = length (m_textureIDs s)
     \<and> (\<forall>j < length (m_textureIDs s). m_textureIDs s' ! j =
           (if i \<le> j \<and> j < m_loadedTextures s
            then (m_textureIDs s ! j)\<lparr>ID := gl_names (gl s) (gl_generated (gl s) + (j - i))\<rparr>
            else m_textureIDs s ! j))
     \<and> gl_calls (gl s') = gl_calls (gl s) @ gen_calls (gl s) (m_loadedTextures s - i)
     \<and> gl_names (gl s') = gl_names (gl s)
     \<and> gl_generated (gl s') = gl_generated (gl s) + (m_loadedTextures s - i)
     \<and> gl_bound (gl s') = gl_bound (gl s)
     \<and> m_pShaderManager s' = m_pShaderManager s
     \<and> m_objectMaterials s' = m_objectMaterials s"
proof (induction "m_loadedTextures s - i" arbitrary: i s)
  case 0
  then have "i = m_loadedTextures s" by simp
  then show ?case
    by (subst DestroyGLTextures_loop.simps) (auto simp: gen_calls_def)
next
  case (Suc n)
  let ?N = "m_loadedTextures s"
  let ?h = "gl_names (gl s) (gl_generated (gl s))"
  let ?g1 = "(gl s)\<lparr>gl_calls := gl_calls (gl s) @ [GenTextures ?h],
                      gl_generated := gl_generated (gl s) + 1\<rparr>"
  let ?s1 = "s\<lparr>m_textureIDs := (m_textureIDs s)[i := (m_textureIDs s ! i)\<lparr>ID := ?h\<rparr>],
               gl := ?g1\<rparr>"
  from Suc.hyps(2) have lt: "i < ?N" by simp
  with Suc.prems have inb: "i < length (m_textureIDs s)" by simp
  have step: "DestroyGLTextures_loop i s = DestroyGLTextures_loop (i + 1) ?s1"
    using lt inb by (subst DestroyGLTextures_loop.simps) (simp add: glGenTextures_def Let_def)
  have "n = m_loadedTextures ?s1 - (i + 1)" using Suc.hyps(2) by simp
  moreover have "i + 1 \<le> m_loadedTextures ?s1" using lt by simp
  moreover have "m_loadedTextures ?s1 \<le> length (m_textureIDs ?s1)" using Suc.prems by simp
  ultimately obtain s' where s':
    "DestroyGLTextures_loop (i + 1) ?s1 = Inr s'"
    "m_loadedTextures s' = m_loadedTextures ?s1"
    "length (m_textureIDs s') = length (m_textureIDs ?s1)"
    "\<forall>j < length (m_textureIDs ?s1). m_textureIDs s' ! j =
           (if i + 1 \<le> j \<and> j < m_loadedTextures ?s1
            then (m_textureIDs ?s1 ! j)\<lparr>ID := gl_names (gl ?s1) (gl_generated (gl ?s1) + (j - (i + 1)))\<rparr>
            else m_textureIDs ?s1 ! j)"
    "gl_calls (gl s') = gl_calls (gl ?s1) @ gen_calls (gl ?s1) (m_loadedTextures ?s1 - (i + 1))"
    "gl_names (gl s') = gl_names (gl ?s1)"
    "gl_generated (gl s') = gl_generated (gl ?s1) + (m_loadedTextures ?s1 - (i + 1))"
    "gl_bound (gl s') = gl_bound (gl ?s1)"
    "m_pShaderManager s' = m_pShaderManager ?s1"
    "m_objectMaterials s' = m_objectMaterials ?s1"
    using Suc.hyps(1) [of ?s1 "i + 1"] by blast
  have gens: "gen_calls (gl s) (?N - i) = GenTextures ?h # gen_calls ?g1 (?N - (i + 1))"
  proof -
    have "?N - i = Suc (?N - (i + 1))" using lt by simp
    then show ?thesis
      by (simp add: gen_calls_def upt_conv_Cons map_Suc_upt [symmetric] del: upt_Suc)
  qed
  have entries: "\<forall>j < length (m_textureIDs s). m_textureIDs s' ! j =
           (if i \<le> j \<and> j < ?N
            then (m_textureIDs s ! j)\<lparr>ID := gl_names (gl s) (gl_generated (gl s) + (j - i))\<rparr>
            else m_textureIDs s ! j)"
  proof (intro allI impI)
    fix j assume j: "j < length (m_textureIDs s)"
    show "m_textureIDs s' ! j =
           (if i \<le> j \<and> j < ?N
            then (m_textureIDs s ! j)\<lparr>ID := gl_names (gl s) (gl_generated (gl s) + (j - i))\<rparr>
            else m_textureIDs s ! j)"
    proof (cases "j = i")
      case True
      then show ?thesis using s'(4) j lt by simp
    next
      case False
      have "i + 1 \<le> j \<Longrightarrow> Suc (gl_generated (gl s) + (j - Suc i)) = gl_generated (gl s) + (j - i)"
        by simp
      then show ?thesis using s'(4) j False by auto
    qed
  qed
  have "DestroyGLTextures_loop i s = Inr s'" using step s'(1) by simp
  moreover have "gl_calls (gl s') = gl_calls (gl s) @ gen_calls (gl s) (?N - i)"
    using s'(5) gens by simp
  moreover have "gl_generated (gl s') = gl_generated (gl s) + (?N - i)"
    using s'(7) lt by simp
  ultimately show ?case
    using s'(2,3,6,8,9,10) entries by simp
qed

text \<open>
  C8. With \<open>N\<close> textures loaded, \<^verbatim>\<open>DestroyGLTextures\<close> makes exactly \<open>N\<close> calls, each a
  handle generation; the handle stored in entry \<open>i\<close> is overwritten by the name that the
  \<open>i\<close>-th of these calls produced; no call is a deletion, so no handle is released.
\<close>

theorem DestroyGLTextures_regenerates:
  assumes "m_loadedTextures s = N" and "N \<le> length (m_textureIDs s)"
  shows "\<exists>s'. DestroyGLTextures s = Inr s'
     \<and> gl_calls (gl s') = gl_calls (gl s) @ gen_calls (gl s) N
     \<and> length (gen_calls (gl s) N) = N
     \<and> (\<forall>h. DeleteTextures h \<notin> set (gen_calls (gl s) N))
     \<and> (\<forall>i<N. ID (m_textureIDs s' ! i) = gl_names (gl s) (gl_generated (gl s) + i)
              \<and> TEXTURE_INFO.tag (m_textureIDs s' ! i) = TEXTURE_INFO.tag (m_textureIDs s ! i))
     \<and> m_loadedTextures s' = N"
proof -
  from DestroyGLTextures_loop_spec [of 0 s] assms
  obtain s' where s': "DestroyGLTextures s = Inr s'"
    "m_loadedTextures s' = N"
    "\<forall>j < length (m_textureIDs s). m_textureIDs s' ! j =
           (if j < N
            then (m_textureIDs s ! j)\<lparr>ID := gl_names (gl s) (gl_generated (gl s) + j)\<rparr>
            else m_textureIDs s ! j)"
    "gl_calls (gl s') = gl_calls (gl s) @ gen_calls (gl s) N"
    unfolding DestroyGLTextures_def by auto
  have "\<forall>h. DeleteTextures h \<notin> set (gen_calls (gl s) N)"
    by (auto simp: gen_calls_def)
  moreover have "length (gen_calls (gl s) N) = N"
    by (simp add: gen_calls_def)
  moreover have "\<forall>i<N. ID (m_textureIDs s' ! i) = gl_names (gl s) (gl_generated (gl s) + i)
              \<and> TEXTURE_INFO.tag (m_textureIDs s' ! i) = TEXTURE_INFO.tag (m_textureIDs s ! i)"
    using s'(3) assms(2) by auto
  ultimately show ?thesis using s'(1,2,4) by blast
qed

theorem DestroyGLTextures_witness:
  "\<exists>s'. DestroyGLTextures two_loaded = Inr s'
     \<and> gl_calls (gl s') = [GenTextures 3, GenTextures 4]
     \<and> ID (m_textureIDs s' ! 0) = 3 \<and> ID (m_textureIDs s' ! 1) = 4"
proof -
  have two: "[0..<2] = [0, Suc 0]" by (simp add: upt_rec numeral_2_eq_2)
  from DestroyGLTextures_regenerates [of two_loaded 2]
  obtain s' where s': "DestroyGLTextures two_loaded = Inr s'"
    "gl_calls (gl s') = gl_calls (gl two_loaded) @ gen_calls (gl two_loaded) 2"
    "\<forall>i<2. ID (m_textureIDs s' ! i)
        = gl_names (gl two_loaded) (gl_generated (gl two_loaded) + i)"
    by (auto simp: two_loaded_def)
  from s'(2) have "gl_calls (gl s') = [GenTextures 3, GenTextures 4]"
    by (simp add: two_loaded_def gl_initial_def gen_calls_def two driver_names_def)
  moreover from s'(3) have "ID (m_textureIDs s' ! 0) = 3" "ID (m_textureIDs s' ! 1) = 4"
    by (simp_all add: two_loaded_def gl_initial_def driver_names_def)
  ultimately show ?thesis using s'(1) by blast
qed

section \<open>Setup: the texture loads stay inside the table\<close>

lemma run_seq_append:
  "run_seq (fs @ gs) s = (case run_seq fs s of Inl e \<Rightarrow> Inl e | Inr s' \<Rightarrow> run_seq gs s')"
  by (induction fs arbitrary: s) (auto split: sum.splits)

lemma load_texture_step:
  assumes "m_loadedTextures s < length (m_textureIDs s)"
  shows "\<exists>s'. load_texture stbi_load ft s = Inr s'
     \<and> length (m_textureIDs s') = length (m_textureIDs s)
     \<and> m_loadedTextures s \<le> m_loadedTextures s'
     \<and> m_loadedTextures s' \<le> m_loadedTextures s + 1
     \<and> (decodes_supported stbi_load (fst ft) \<longrightarrow> m_loadedTextures s' = m_loadedTextures s + 1)"
proof (cases "stbi_load (fst ft)")
  case None
  then show ?thesis
    by (simp add: load_texture_def CreateGLTexture_def decodes_supported_def)
next
  case (Some img)
  show ?thesis
  proof (cases "colorChannels img = 3 \<or> colorChannels img = 4")
    case True
    from Some True assms CreateGLTexture_supported [of stbi_load "fst ft" img s "snd ft"]
    obtain g' where "CreateGLTexture stbi_load (fst ft) (snd ft) s =
           Inr (True, s\<lparr>m_textureIDs := (m_textureIDs s)
                  [m_loadedTextures s :=
                     \<lparr>TEXTURE_INFO.tag = snd ft, ID = gl_names (gl s) (gl_generated (gl s))\<rparr>],
                m_loadedTextures := m_loadedTextures s + 1,
                gl := g'\<rparr>)"
      by blast
    then show ?thesis by (simp add: load_texture_def)
  next
    case False
    with Some CreateGLTexture_unsupported [of stbi_load "fst ft" img "snd ft" s]
    obtain s' where "CreateGLTexture stbi_load (fst ft) (snd ft) s = Inr (False, s')"
      "m_loadedTextures s' = m_loadedTextures s" "m_textureIDs s' = m_textureIDs s"
      by auto
    with Some False show ?thesis
      by (simp add: load_texture_def decodes_supported_def)
  qed
qed

lemma load_all:
  "m_loadedTextures s + length fts \<le> length (m_textureIDs s) \<Longrightarrow>
   \<exists>s'. run_seq (map (load_texture stbi_load) fts) s = Inr s'
     \<and> length (m_textureIDs s') = length (m_textureIDs s)
     \<and> m_loadedTextures s \<le> m_loadedTextures s'
     \<and> m_loadedTextures s' \<le> m_loadedTextures s + length fts
     \<and> ((\<forall>ft\<in>set fts. decodes_supported stbi_load (fst ft))
          \<longrightarrow> m_loadedTextures s' = m_loadedTextures s + length fts)"
proof (induction fts arbitrary: s)
  case Nil
  then show ?case by simp
next
  case (Cons ft fts)
  then have "m_loadedTextures s < length (m_textureIDs s)" by simp
  from load_texture_step [OF this, of stbi_load ft]
  obtain s1 where s1: "load_texture stbi_load ft s = Inr s1"
    "length (m_textureIDs s1) = length (m_textureIDs s)"
    "m_loadedTextures s \<le> m_loadedTextures s1"
    "m_loadedTextures s1 \<le> m_loadedTextures s + 1"
    "decodes_supported stbi_load (fst ft) \<longrightarrow> m_loadedTextures s1 = m_loadedTextures s + 1"
    by blast
  have "m_loadedTextures s1 + length fts \<le> length (m_textureIDs s1)"
    using s1(2,4) Cons.prems by simp
  from Cons.IH [OF this]
  obtain s' where s': "run_seq (map (load_texture stbi_load) fts) s1 = Inr s'"
    "length (m_textureIDs s') = length (m_textureIDs s1)"
    "m_loadedTextures s1 \<le> m_loadedTextures s'"
    "m_loadedTextures s' \<le> m_loadedTextures s1 + length fts"
    "(\<forall>ft\<in>set fts. decodes_supported stbi_load (fst ft))
          \<longrightarrow> m_loadedTextures s' = m_loadedTextures s1 + length fts"
    by blast
  have "run_seq (map (load_texture stbi_load) (ft # fts)) s = Inr s'"
    using s1(1) s'(1) by simp
  then show ?case
    using s1(2-5) s'(2-5) by (intro exI [of _ s']) auto
qed

text \<open>
  C10. \<^verbatim>\<open>LoadSceneTextures\<close> makes exactly 16 \<^verbatim>\<open>CreateGLTexture\<close> calls. Started on
  the state the constructor builds, whatever the decoder returns, it ends without a
  write or read outside the 16-slot table, with at most 16 textures loaded; when every
  file decodes to a 3- or 4-channel image the count is exactly 16.
\<close>

theorem LoadSceneTextures_within_table:
  "length scene_textures = 16
   \<and> (\<exists>s'. LoadSceneTextures stbi_load (SceneManager pShaderManager g) = Inr s'
        \<and> m_loadedTextures s' \<le> 16
        \<and> length (m_textureIDs s') = 16
        \<and> ((\<forall>ft\<in>set scene_textures. decodes_supported stbi_load (fst ft))
             \<longrightarrow> m_loadedTextures s' = 16))"
proof -
  let ?s0 = "SceneManager pShaderManager g"
  have len: "length scene_textures = 16" by (simp add: scene_textures_def)
  have s0: "m_loadedTextures ?s0 = 0" "length (m_textureIDs ?s0) = 16"
    by (simp_all add: SceneManager_def)
  then have "m_loadedTextures ?s0 + length scene_textures \<le> length (m_textureIDs ?s0)"
    using len by simp
  from load_all [OF this, of stbi_load]
  obtain s1 where s1: "run_seq (map (load_texture stbi_load) scene_textures) ?s0 = Inr s1"
    "length (m_textureIDs s1) = 16" "m_loadedTextures s1 \<le> 16"
    "(\<forall>ft\<in>set scene_textures. decodes_supported stbi_load (fst ft))
          \<longrightarrow> m_loadedTextures s1 = 16"
    using s0 len by auto
  from BindGLTextures_loop_spec [of 0 s1] s1(2,3)
  obtain g' where "BindGLTextures s1 = Inr (s1\<lparr>gl := g'\<rparr>)"
    unfolding BindGLTextures_def by auto
  then have "LoadSceneTextures stbi_load ?s0 = Inr (s1\<lparr>gl := g'\<rparr>)"
    using s1(1) by (simp add: LoadSceneTextures_def run_seq_append)
  then show ?thesis using len s1(2-4) by simp
qed

theorem LoadSceneTextures_within_table_witness:
  "\<exists>s'. LoadSceneTextures (\<lambda>f. Some rgb_image) (SceneManager None gl_initial) = Inr s'
        \<and> m_loadedTextures s' = 16 \<and> length (m_textureIDs s') = 16"
  using LoadSceneTextures_within_table [of "\<lambda>f. Some rgb_image" None gl_initial]
  by (auto simp: decodes_supported_def rgb_image_def)

section \<open>The model matrix\<close>

lemma glm_translate_eq: "glm_translate p = Translate p"
  by (cases p) (simp add: glm_translate_def Translate_def mat4_identity_def)

lemma glm_scale_eq: "glm_scale v = Scale v"
  by (cases v) (simp add: glm_scale_def Scale_def mat4_identity_def)

lemma glm_rotate_X: "glm_rotate (glm_radians d) (Vec3 1 0 0) = RotateX d"
  by (simp add: glm_rotate_def glm_radians_def RotateX_def mat4_identity_def Let_def)

lemma glm_rotate_Y: "glm_rotate (glm_radians d) (Vec3 0 1 0) = RotateY d"
  by (simp add: glm_rotate_def glm_radians_def RotateY_def mat4_identity_def Let_def)

lemma glm_rotate_Z: "glm_rotate (glm_radians d) (Vec3 0 0 1) = RotateZ d"
  by (simp add: glm_rotate_def glm_radians_def RotateZ_def mat4_identity_def Let_def)

lemma modelView_eq:
  "modelView sc X Y Z p =
     mat4_mul (mat4_mul (mat4_mul (mat4_mul (Translate p) (RotateX X)) (RotateY Y)) (RotateZ Z))
       (Scale sc)"
  by (simp add: modelView_def Let_def glm_translate_eq glm_scale_eq glm_rotate_X glm_rotate_Y
      glm_rotate_Z)

lemma modelView_translation: "modelView (Vec3 1 1 1) 0 0 0 p = Translate p"
  by (cases p) (simp add: modelView_eq Translate_def RotateX_def RotateY_def RotateZ_def Scale_def)

lemma modelView_scale2:
  "mat4_vec4 (modelView (Vec3 2 1 1) 0 0 0 (Vec3 0 0 0)) (Vec4 1 0 0 1) = Vec4 2 0 0 1"
  by (simp add: modelView_eq Translate_def RotateX_def RotateY_def RotateZ_def Scale_def)

text \<open>
  C2. For every scale vector, rotation triple in degrees and position vector,
  \<^verbatim>\<open>SetTransformations\<close> uploads as the uniform ''model'' the matrix
  \<open>Translate \<cdot> RotateX \<cdot> RotateY \<cdot> RotateZ \<cdot> Scale\<close>. For scale \<open>(1,1,1)\<close> and rotation
  \<open>(0,0,0)\<close> the matrix is the translation by the position; for scale \<open>(2,1,1)\<close>, rotation
  \<open>(0,0,0)\<close> and position \<open>(0,0,0)\<close> it maps the point \<open>(1,0,0)\<close> to \<open>(2,0,0)\<close>.
\<close>

theorem SetTransformations_model_matrix:
  "SetTransformations sc X Y Z p (s\<lparr>m_pShaderManager := Some sh\<rparr>)
     = Inr (s\<lparr>m_pShaderManager := Some (sh @ [(''model'', Mat4Value (modelView sc X Y Z p))])\<rparr>)
   \<and> modelView sc X Y Z p =
       mat4_mul (mat4_mul (mat4_mul (mat4_mul (Translate p) (RotateX X)) (RotateY Y))
         (RotateZ Z)) (Scale sc)
   \<and> modelView (Vec3 1 1 1) 0 0 0 p = Translate p
   \<and> mat4_vec4 (modelView (Vec3 2 1 1) 0 0 0 (Vec3 0 0 0)) (Vec4 1 0 0 1) = Vec4 2 0 0 1"
  using modelView_eq [of sc X Y Z p] modelView_translation [of p] modelView_scale2
  by (simp add: SetTransformations_def g_ModelName_def)

section \<open>Render: what the passes leave unchanged\<close>

lemma steadyD:
  assumes "steady f" and "m_pShaderManager s = Some sh"
    and "m_loadedTextures s \<le> length (m_textureIDs s)"
  obtains out s' where "f s = Inr s'" "m_pShaderManager s' = Some (sh @ out)"
    "m_loadedTextures s' = m_loadedTextures s" "m_textureIDs s' = m_textureIDs s"
    "m_objectMaterials s' = m_objectMaterials s"
  using assms unfolding steady_def by blast

lemma steady_run_seq: "list_all steady fs \<Longrightarrow> steady (run_seq fs)"
proof (induction fs)
  case Nil
  show ?case by (simp add: steady_def)
next
  case (Cons f fs)
  then have f: "steady f" and fs: "steady (run_seq fs)" by simp_all
  show ?case
    unfolding steady_def
  proof (intro allI impI, elim conjE)
    fix s :: scene_manager and sh
    assume sh: "m_pShaderManager s = Some sh"
      and le: "m_loadedTextures s \<le> length (m_textureIDs s)"
    from steadyD [OF f sh le] obtain out1 s1 where s1: "f s = Inr s1"
      "m_pShaderManager s1 = Some (sh @ out1)"
      "m_loadedTextures s1 = m_loadedTextures s" "m_textureIDs s1 = m_textureIDs s"
      "m_objectMaterials s1 = m_objectMaterials s"
      by blast
    from le s1(3,4) have le1: "m_loadedTextures s1 \<le> length (m_textureIDs s1)" by simp
    from steadyD [OF fs s1(2) le1] obtain out2 s2 where s2: "run_seq fs s1 = Inr s2"
      "m_pShaderManager s2 = Some ((sh @ out1) @ out2)"
      "m_loadedTextures s2 = m_loadedTextures s1" "m_textureIDs s2 = m_textureIDs s1"
      "m_objectMaterials s2 = m_objectMaterials s1"
      by blast
    show "\<exists>out s'. run_seq (f # fs) s = Inr s' \<and> m_pShaderManager s' = Some (sh @ out)
           \<and> m_loadedTextures s' = m_loadedTextures s
           \<and> m_textureIDs s' = m_textureIDs s
           \<and> m_objectMaterials s' = m_objectMaterials s"
      using s1 s2 by (intro exI [of _ "out1 @ out2"] exI [of _ s2]) simp
  qed
qed

lemma FindTextureSlot_returns:
  assumes "m_loadedTextures s \<le> length (m_textureIDs s)"
  shows "\<exists>k. FindTextureSlot s tg = Inr k"
proof (cases "\<exists>k<m_loadedTextures s. TEXTURE_INFO.tag (m_textureIDs s ! k) = tg")
  case True
  then obtain k where k: "k < m_loadedTextures s" "TEXTURE_INFO.tag (m_textureIDs s ! k) = tg"
    by blast
  from first_index_exists [where P = "\<lambda>j. TEXTURE_INFO.tag (m_textureIDs s ! j) = tg", OF k(2)]
  obtain j where j: "j \<le> k" "TEXTURE_INFO.tag (m_textureIDs s ! j) = tg"
    "\<forall>i<j. TEXTURE_INFO.tag (m_textureIDs s ! i) \<noteq> tg"
    by blast
  have "FindTextureSlot_loop s tg 0 False (- 1) = Inr (int j)"
    using j k(1) assms by (intro FindTextureSlot_loop_first_match) simp_all
  then show ?thesis by (simp add: FindTextureSlot_def)
next
  case False
  then have "FindTextureSlot_loop s tg 0 False (- 1) = Inr (- 1)"
    using assms by (intro FindTextureSlot_loop_no_match) auto
  then show ?thesis by (simp add: FindTextureSlot_def)
qed

lemma steady_SetTransformations: "steady (SetTransformations sc X Y Z p)"
  by (simp add: steady_def SetTransformations_def)

lemma steady_SetShaderColor: "steady (SetShaderColor r g b a)"
  by (simp add: steady_def SetShaderColor_def)

lemma steady_SetTextureUVScale: "steady (SetTextureUVScale u v)"
  by (simp add: steady_def SetTextureUVScale_def)

lemma steady_basicMeshes: "steady (basicMeshes c)"
  by (simp add: steady_def basicMeshes_def)

lemma steady_SetShaderTexture: "steady (SetShaderTexture tg)"
  unfolding steady_def
proof (intro allI impI, elim conjE)
  fix s :: scene_manager and sh
  assume sh: "m_pShaderManager s = Some sh"
    and le: "m_loadedTextures s \<le> length (m_textureIDs s)"
  from FindTextureSlot_returns [OF le, of tg] obtain k where "FindTextureSlot s tg = Inr k"
    by blast
  with sh show "\<exists>out s'. SetShaderTexture tg s = Inr s' \<and> m_pShaderManager s' = Some (sh @ out)
           \<and> m_loadedTextures s' = m_loadedTextures s
           \<and> m_textureIDs s' = m_textureIDs s
           \<and> m_objectMaterials s' = m_objectMaterials s"
    by (simp add: SetShaderTexture_def)
qed

lemma steady_SetShaderMaterial: "steady (SetShaderMaterial u tg)"
  by (auto simp: steady_def SetShaderMaterial_def FindMaterial_def Let_def)

lemmas steady_calls =
  steady_SetTransformations steady_SetShaderColor steady_SetTextureUVScale
  steady_basicMeshes steady_SetShaderTexture steady_SetShaderMaterial

lemma steady_RenderDeskandwalls: "steady (RenderDeskandwalls u)"
  unfolding RenderDeskandwalls_def by (rule steady_run_seq) (simp add: steady_calls)

lemma steady_RenderKeyboardandmat: "steady (RenderKeyboardandmat u)"
  unfolding RenderKeyboardandmat_def by (rule steady_run_seq) (simp add: steady_calls)

lemma steady_RenderMouse: "steady (RenderMouse u)"
  unfolding RenderMouse_def by (rule steady_run_seq) (simp add: steady_calls)

lemma steady_RenderMonitor: "steady (RenderMonitor u)"
  unfolding RenderMonitor_def by (rule steady_run_seq) (simp add: steady_calls)

lemma steady_RenderPCexterior: "steady (RenderPCexterior u)"
  unfolding RenderPCexterior_def by (rule steady_run_seq) (simp add: steady_calls)

lemma steady_RenderPCinterior: "steady (RenderPCinterior u)"
  unfolding RenderPCinterior_def by (rule steady_run_seq) (simp add: steady_calls)

section \<open>The glass material\<close>

lemma SetShaderMaterial_no_match:
  assumes "m_pShaderManager s = Some sh" and "m_objectMaterials s \<noteq> []"
    and "tg \<notin> set (map OBJECT_MATERIAL.tag (m_objectMaterials s))"
  shows "SetShaderMaterial u tg s = Inr (s\<lparr>m_pShaderManager := Some (sh @ material_uploads u)\<rparr>)"
proof -
  have "FindMaterial_loop (m_objectMaterials s) tg 0 False u = (False, u)"
    using assms(3) by (rule FindMaterial_loop_absent)
  then show ?thesis
    using assms(1,2) by (simp add: SetShaderMaterial_def FindMaterial_def material_uploads_def)
qed

lemma RenderGlass_no_glass:
  assumes "m_pShaderManager s = Some sh" and "m_objectMaterials s \<noteq> []"
    and "''glass'' \<notin> set (map OBJECT_MATERIAL.tag (m_objectMaterials s))"
  shows "RenderGlass u s =
     Inr (s\<lparr>m_pShaderManager := Some (sh @ glass_pass_uploads u),
           m_basicMeshes := m_basicMeshes s @ [DrawBoxMesh, DrawBoxMesh]\<rparr>)"
  using assms
  by (simp add: RenderGlass_def SetTransformations_def SetShaderColor_def basicMeshes_def
      SetShaderMaterial_no_match glass_pass_uploads_def g_ModelName_def g_UseTextureName_def
      g_ColorValueName_def)

lemma DefineObjectMaterials_registry:
  "m_objectMaterials (DefineObjectMaterials s) =
     m_objectMaterials s @
     [\<lparr>ambientColor = Vec3 0.2 0.2 0.2, ambientStrength = 0.3,
       diffuseColor = Vec3 0.2 0.2 0.2, specularColor = Vec3 0.5 0.5 0.5,
       shininess = 25, tag = ''metal''\<rparr>,
      \<lparr>ambientColor = Vec3 0.1 0.1 0.1, ambientStrength = 0.2,
       diffuseColor = Vec3 0.3 0.3 0.3, specularColor = Vec3 0.1 0.1 0.1,
       shininess = 0.3, tag = ''wood''\<rparr>,
      \<lparr>ambientColor = Vec3 0.1 0.1 0.1, ambientStrength = 0.2,
       diffuseColor = Vec3 0.5 0.5 0.5, specularColor = Vec3 0.1 0.1 0.1,
       shininess = 0, tag = ''walls''\<rparr>,
      \<lparr>ambientColor = Vec3 0.1 0.1 0.1, ambientStrength = 0.1,
       diffuseColor = Vec3 0.3 0.2 0.3, specularColor = Vec3 0.4 0.2 0.2,
       shininess = 0.5, tag = ''plastic''\<rparr>]"
  by (simp add: DefineObjectMaterials_def push_back_def Let_def)

lemma DefineObjectMaterials_frame:
  "m_pShaderManager (DefineObjectMaterials s) = m_pShaderManager s"
  "m_loadedTextures (DefineObjectMaterials s) = m_loadedTextures s"
  "m_textureIDs (DefineObjectMaterials s) = m_textureIDs s"
  "m_basicMeshes (DefineObjectMaterials s) = m_basicMeshes s"
  by (simp_all add: DefineObjectMaterials_def Let_def)

lemma SetShaderMaterial_first_match:
  assumes "m_pShaderManager s = Some sh" and "k < length (m_objectMaterials s)"
    and "OBJECT_MATERIAL.tag (m_objectMaterials s ! k) = tg"
    and "\<forall>i<k. OBJECT_MATERIAL.tag (m_objectMaterials s ! i) \<noteq> tg"
  shows "SetShaderMaterial u tg s =
     Inr (s\<lparr>m_pShaderManager := Some (sh @ material_uploads (m_objectMaterials s ! k))\<rparr>)"
proof -
  have "FindMaterial_loop (m_objectMaterials s) tg 0 False u
          = (True, copy_properties (m_objectMaterials s ! k) u)"
    using assms(2-4) by (intro FindMaterial_loop_first_match) simp_all
  moreover have "m_objectMaterials s \<noteq> []" using assms(2) by auto
  ultimately show ?thesis
    using assms(1)
    by (simp add: SetShaderMaterial_def FindMaterial_def material_uploads_def
        copy_properties_def)
qed

lemma RenderGlass_glass_appended:
  assumes "m_pShaderManager s = Some sh"
    and "''glass'' \<notin> set (map OBJECT_MATERIAL.tag (m_objectMaterials s))"
    and "OBJECT_MATERIAL.tag A = ''glass''"
  shows "RenderGlass u (s\<lparr>m_objectMaterials := push_back (m_objectMaterials s) A\<rparr>) =
     Inr (s\<lparr>m_objectMaterials := push_back (m_objectMaterials s) A,
           m_pShaderManager := Some (sh @ glass_pass_uploads A),
           m_basicMeshes := m_basicMeshes s @ [DrawBoxMesh, DrawBoxMesh]\<rparr>)"
proof -
  have m: "SetShaderMaterial u ''glass'' s' =
      Inr (s'\<lparr>m_pShaderManager := Some (sh' @ material_uploads A)\<rparr>)"
    if "m_pShaderManager s' = Some sh'"
      and "m_objectMaterials s' = push_back (m_objectMaterials s) A" for s' sh'
    using SetShaderMaterial_first_match [of s' sh' "length (m_objectMaterials s)" "''glass''" u]
      that assms(3) absent_tag_nth [OF assms(2)]
    by (simp add: push_back_def nth_append)
  show ?thesis
    using assms(1)
    by (simp add: RenderGlass_def SetTransformations_def SetShaderColor_def basicMeshes_def
        m glass_pass_uploads_def g_ModelName_def g_UseTextureName_def g_ColorValueName_def)
qed

text \<open>
  C9. After \<^verbatim>\<open>DefineObjectMaterials\<close> has run once on an empty registry, the registry
  holds exactly four entries, tagged ''metal'', ''wood'', ''walls'', ''plastic'' in this
  order, and none tagged ''glass''. The glass pass asks for ''glass'': the lookup matches
  no entry (it returns \<^verbatim>\<open>true\<close> and leaves its output untouched), so both material
  uploads of the pass carry the properties the uninitialized local happened to hold.
\<close>

theorem glass_never_defined:
  assumes "m_objectMaterials s = []" and "m_pShaderManager s = Some sh"
  shows "map OBJECT_MATERIAL.tag (m_objectMaterials (DefineObjectMaterials s))
           = [''metal'', ''wood'', ''walls'', ''plastic'']
     \<and> ''glass'' \<notin> set (map OBJECT_MATERIAL.tag (m_objectMaterials (DefineObjectMaterials s)))
     \<and> FindMaterial (m_objectMaterials (DefineObjectMaterials s)) ''glass'' u = (True, u)
     \<and> RenderGlass u (DefineObjectMaterials s) =
         Inr ((DefineObjectMaterials s)
               \<lparr>m_pShaderManager := Some (sh @ glass_pass_uploads u),
                m_basicMeshes := m_basicMeshes s @ [DrawBoxMesh, DrawBoxMesh]\<rparr>)"
proof -
  let ?s1 = "DefineObjectMaterials s"
  have tags: "map OBJECT_MATERIAL.tag (m_objectMaterials ?s1)
           = [''metal'', ''wood'', ''walls'', ''plastic'']"
    using assms(1) by (simp add: DefineObjectMaterials_registry)
  then have no: "''glass'' \<notin> set (map OBJECT_MATERIAL.tag (m_objectMaterials ?s1))"
    by simp
  have ne: "m_objectMaterials ?s1 \<noteq> []"
    by (simp add: DefineObjectMaterials_registry)
  have "FindMaterial_loop (m_objectMaterials ?s1) ''glass'' 0 False u = (False, u)"
    using no by (rule FindMaterial_loop_absent)
  then have find: "FindMaterial (m_objectMaterials ?s1) ''glass'' u = (True, u)"
    using ne by (simp add: FindMaterial_def)
  have "RenderGlass u ?s1 =
         Inr (?s1\<lparr>m_pShaderManager := Some (sh @ glass_pass_uploads u),
                m_basicMeshes := m_basicMeshes ?s1 @ [DrawBoxMesh, DrawBoxMesh]\<rparr>)"
    using assms(2) ne no by (intro RenderGlass_no_glass) (simp_all add: DefineObjectMaterials_frame)
  with tags no find show ?thesis by (simp add: DefineObjectMaterials_frame)
qed

theorem glass_never_defined_witness:
  "map OBJECT_MATERIAL.tag (m_objectMaterials after_setup)
           = [''metal'', ''wood'', ''walls'', ''plastic'']
   \<and> FindMaterial (m_objectMaterials after_setup) ''glass'' local_material
       = (True, local_material)
   \<and> RenderGlass local_material after_setup =
         Inr (after_setup
               \<lparr>m_pShaderManager := Some (glass_pass_uploads local_material),
                m_basicMeshes := [DrawBoxMesh, DrawBoxMesh]\<rparr>)"
  using glass_never_defined [of "SceneManager (Some []) gl_initial" "[]" local_material]
  by (simp add: after_setup_def SceneManager_def)

section \<open>Replaying the Render sequence\<close>

lemma RenderScene_ends_with_glass_pass:
  assumes sh: "m_pShaderManager s = Some sh"
    and le: "m_loadedTextures s \<le> length (m_textureIDs s)"
    and ne: "m_objectMaterials s \<noteq> []"
    and no: "''glass'' \<notin> set (map OBJECT_MATERIAL.tag (m_objectMaterials s))"
  shows "\<exists>out s'. RenderScene u s = Inr s'
     \<and> m_pShaderManager s' = Some (sh @ out @ glass_pass_uploads u)
     \<and> m_loadedTextures s' = m_loadedTextures s
     \<and> m_textureIDs s' = m_textureIDs s
     \<and> m_objectMaterials s' = m_objectMaterials s"
proof -
  let ?before = "[RenderDeskandwalls u, RenderKeyboardandmat u, RenderMouse u,
      RenderPCexterior u, RenderPCinterior u, RenderMonitor u]"
  have "steady (run_seq ?before)"
    by (rule steady_run_seq)
       (simp add: steady_RenderDeskandwalls steady_RenderKeyboardandmat steady_RenderMouse
          steady_RenderPCexterior steady_RenderPCinterior steady_RenderMonitor)
  from steadyD [OF this sh le] obtain out s1 where s1: "run_seq ?before s = Inr s1"
    "m_pShaderManager s1 = Some (sh @ out)"
    "m_loadedTextures s1 = m_loadedTextures s" "m_textureIDs s1 = m_textureIDs s"
    "m_objectMaterials s1 = m_objectMaterials s"
    by blast
  have "RenderScene u s = (case run_seq ?before s of Inl e \<Rightarrow> Inl e
                           | Inr s' \<Rightarrow> run_seq [RenderGlass u] s')"
    using run_seq_append [of ?before "[RenderGlass u]" s] by (simp add: RenderScene_def)
  also have "\<dots> = RenderGlass u s1"
    using s1(1) by (simp split: sum.splits)
  also have "\<dots> = Inr (s1\<lparr>m_pShaderManager := Some ((sh @ out) @ glass_pass_uploads u),
           m_basicMeshes := m_basicMeshes s1 @ [DrawBoxMesh, DrawBoxMesh]\<rparr>)"
    using s1(2,5) ne no by (intro RenderGlass_no_glass) simp_all
  finally show ?thesis
    using s1(3-5) by (intro exI [of _ out]) simp
qed

lemma last_glass_pass_uploads:
  "last (xs @ glass_pass_uploads u) = (''material.shininess'', FloatValue (shininess u))"
  by (simp add: glass_pass_uploads_def material_uploads_def)

text \<open>
  C7. Two replays of \<^verbatim>\<open>RenderScene\<close> on the registries that Setup leaves. The registries
  are the same before, between and after the replays, yet the trace of uploads of the
  second replay differs from the trace of the first: the glass pass uploads the contents
  of the uninitialized local of \<^verbatim>\<open>SetShaderMaterial\<close>, here with shininess 11 in the
  first replay and 25 in the second.
\<close>

theorem RenderScene_replays_differ:
  "\<exists>s1 s2 t1 t2.
      RenderScene local_material after_setup = Inr s1
    \<and> RenderScene metal_entry s1 = Inr s2
    \<and> m_objectMaterials s1 = m_objectMaterials after_setup
    \<and> m_textureIDs s1 = m_textureIDs after_setup
    \<and> m_loadedTextures s1 = m_loadedTextures after_setup
    \<and> m_objectMaterials s2 = m_objectMaterials after_setup
    \<and> m_textureIDs s2 = m_textureIDs after_setup
    \<and> m_loadedTextures s2 = m_loadedTextures after_setup
    \<and> m_pShaderManager s1 = Some t1
    \<and> m_pShaderManager s2 = Some (t1 @ t2)
    \<and> last t1 = (''material.shininess'', FloatValue 11)
    \<and> last t2 = (''material.shininess'', FloatValue 25)
    \<and> t1 \<noteq> t2"
proof -
  have s0: "m_pShaderManager after_setup = Some []"
    "m_loadedTextures after_setup \<le> length (m_textureIDs after_setup)"
    "m_objectMaterials after_setup \<noteq> []"
    "''glass'' \<notin> set (map OBJECT_MATERIAL.tag (m_objectMaterials after_setup))"
    by (simp_all add: after_setup_def DefineObjectMaterials_frame DefineObjectMaterials_registry
        SceneManager_def)
  from RenderScene_ends_with_glass_pass [OF s0, of local_material]
  obtain out1 s1 where s1: "RenderScene local_material after_setup = Inr s1"
    "m_pShaderManager s1 = Some (out1 @ glass_pass_uploads local_material)"
    "m_loadedTextures s1 = m_loadedTextures after_setup"
    "m_textureIDs s1 = m_textureIDs after_setup"
    "m_objectMaterials s1 = m_objectMaterials after_setup"
    by auto
  let ?t1 = "out1 @ glass_pass_uploads local_material"
  have s1': "m_loadedTextures s1 \<le> length (m_textureIDs s1)" "m_objectMaterials s1 \<noteq> []"
    "''glass'' \<notin> set (map OBJECT_MATERIAL.tag (m_objectMaterials s1))"
    using s0 s1(3-5) by simp_all
  from RenderScene_ends_with_glass_pass [OF s1(2) s1', of metal_entry]
  obtain out2 s2 where s2: "RenderScene metal_entry s1 = Inr s2"
    "m_pShaderManager s2 = Some (?t1 @ out2 @ glass_pass_uploads metal_entry)"
    "m_loadedTextures s2 = m_loadedTextures s1"
    "m_textureIDs s2 = m_textureIDs s1"
    "m_objectMaterials s2 = m_objectMaterials s1"
    by auto
  let ?t2 = "out2 @ glass_pass_uploads metal_entry"
  have l1: "last ?t1 = (''material.shininess'', FloatValue 11)"
    by (simp add: last_glass_pass_uploads local_material_def)
  have l2: "last ?t2 = (''material.shininess'', FloatValue 25)"
    by (simp add: last_glass_pass_uploads metal_entry_def)
  from l1 l2 have "?t1 \<noteq> ?t2" by auto
  with s1 s2 l1 l2 show ?thesis
    by (intro exI [of _ s1] exI [of _ s2] exI [of _ ?t1] exI [of _ ?t2]) simp
qed

subsection \<open>With every requested material defined\<close>

text \<open>
  Had the registry an entry for each of the five tags the passes ask for, ''glass''
  included, the uninitialized local would never reach the shader: two replays then append
  the same uploads, whatever the local holds.
\<close>

lemma twinD:
  assumes "twin M f g" and "m_pShaderManager s = Some shs" and "m_pShaderManager t = Some sht"
    and "m_loadedTextures s \<le> length (m_textureIDs s)" and "same_registries s t"
    and "m_objectMaterials s = M"
  obtains out s' t' where "f s = Inr s'" "g t = Inr t'"
    "m_pShaderManager s' = Some (shs @ out)" "m_pShaderManager t' = Some (sht @ out)"
    "same_registries s' s" "same_registries t' t"
  using assms unfolding twin_def by blast

lemma twin_run_seq: "list_all2 (twin M) fs gs \<Longrightarrow> twin M (run_seq fs) (run_seq gs)"
proof (induction fs gs rule: list_all2_induct)
  case Nil
  show ?case by (simp add: twin_def same_registries_def)
next
  case (Cons f fs g gs)
  show ?case
    unfolding twin_def
  proof (intro allI impI, elim conjE)
    fix s t :: scene_manager and shs sht
    assume a: "m_pShaderManager s = Some shs" "m_pShaderManager t = Some sht"
      "m_loadedTextures s \<le> length (m_textureIDs s)" "same_registries s t"
      "m_objectMaterials s = M"
    from twinD [OF Cons.hyps(1) a] obtain out1 s1 t1 where 1: "f s = Inr s1" "g t = Inr t1"
      "m_pShaderManager s1 = Some (shs @ out1)" "m_pShaderManager t1 = Some (sht @ out1)"
      "same_registries s1 s" "same_registries t1 t"
      by blast
    have b: "m_loadedTextures s1 \<le> length (m_textureIDs s1)" "same_registries s1 t1"
      "m_objectMaterials s1 = M"
      using a(3-5) 1(5,6) by (simp_all add: same_registries_def)
    from twinD [OF Cons.IH 1(3,4) b] obtain out2 s2 t2 where 2:
      "run_seq fs s1 = Inr s2" "run_seq gs t1 = Inr t2"
      "m_pShaderManager s2 = Some ((shs @ out1) @ out2)"
      "m_pShaderManager t2 = Some ((sht @ out1) @ out2)"
      "same_registries s2 s1" "same_registries t2 t1"
      by blast
    show "\<exists>out s' t'. run_seq (f # fs) s = Inr s' \<and> run_seq (g # gs) t = Inr t' \<and>
           m_pShaderManager s' = Some (shs @ out) \<and> m_pShaderManager t' = Some (sht @ out) \<and>
           same_registries s' s \<and> same_registries t' t"
      using 1 2
      by (intro exI [of _ "out1 @ out2"] exI [of _ s2] exI [of _ t2])
         (simp add: same_registries_def)
  qed
qed

lemma FindTextureSlot_same_registries:
  assumes "same_registries s t" and "m_loadedTextures s \<le> length (m_textureIDs s)"
  shows "FindTextureSlot t tg = FindTextureSlot s tg"
proof -
  from assms have eq: "m_loadedTextures t = m_loadedTextures s" "m_textureIDs t = m_textureIDs s"
    and le: "m_loadedTextures t \<le> length (m_textureIDs t)"
    by (simp_all add: same_registries_def)
  show ?thesis
  proof (cases "\<exists>k<m_loadedTextures s. TEXTURE_INFO.tag (m_textureIDs s ! k) = tg")
    case True
    then obtain k where k: "k < m_loadedTextures s" "TEXTURE_INFO.tag (m_textureIDs s ! k) = tg"
      by blast
    from first_index_exists [where P = "\<lambda>j. TEXTURE_INFO.tag (m_textureIDs s ! j) = tg", OF k(2)]
    obtain j where j: "j \<le> k" "TEXTURE_INFO.tag (m_textureIDs s ! j) = tg"
      "\<forall>i<j. TEXTURE_INFO.tag (m_textureIDs s ! i) \<noteq> tg"
      by blast
    have "FindTextureSlot_loop s tg 0 False (- 1) = Inr (int j)"
      using j k(1) assms(2) by (intro FindTextureSlot_loop_first_match) simp_all
    moreover have "FindTextureSlot_loop t tg 0 False (- 1) = Inr (int j)"
      using j k(1) le eq by (intro FindTextureSlot_loop_first_match) simp_all
    ultimately show ?thesis by (simp add: FindTextureSlot_def)
  next
    case False
    then have "FindTextureSlot_loop s tg 0 False (- 1) = Inr (- 1)"
      using assms(2) by (intro FindTextureSlot_loop_no_match) auto
    moreover from False have "FindTextureSlot_loop t tg 0 False (- 1) = Inr (- 1)"
      using le eq by (intro FindTextureSlot_loop_no_match) auto
    ultimately show ?thesis by (simp add: FindTextureSlot_def)
  qed
qed

lemma twin_SetTransformations: "twin M (SetTransformations sc X Y Z p) (SetTransformations sc X Y Z p)"
  by (simp add: twin_def SetTransformations_def same_registries_def)

lemma twin_SetShaderColor: "twin M (SetShaderColor r g b a) (SetShaderColor r g b a)"
  by (simp add: twin_def SetShaderColor_def same_registries_def)

lemma twin_SetTextureUVScale: "twin M (SetTextureUVScale u v) (SetTextureUVScale u v)"
  by (simp add: twin_def SetTextureUVScale_def same_registries_def)

lemma twin_basicMeshes: "twin M (basicMeshes c) (basicMeshes c)"
  by (simp add: twin_def basicMeshes_def same_registries_def)

lemma twin_SetShaderTexture: "twin M (SetShaderTexture tg) (SetShaderTexture tg)"
  unfolding twin_def
proof (intro allI impI, elim conjE)
  fix s t :: scene_manager and shs sht
  assume a: "m_pShaderManager s = Some shs" "m_pShaderManager t = Some sht"
    "m_loadedTextures s \<le> length (m_textureIDs s)" "same_registries s t"
  from FindTextureSlot_returns [OF a(3), of tg] obtain k where k: "FindTextureSlot s tg = Inr k"
    by blast
  then have "FindTextureSlot t tg = Inr k"
    using FindTextureSlot_same_registries [OF a(4,3), of tg] by simp
  with k a(1,2) show "\<exists>out s' t'. SetShaderTexture tg s = Inr s' \<and> SetShaderTexture tg t = Inr t' \<and>
           m_pShaderManager s' = Some (shs @ out) \<and> m_pShaderManager t' = Some (sht @ out) \<and>
           same_registries s' s \<and> same_registries t' t"
    by (simp add: SetShaderTexture_def same_registries_def)
qed

lemma twin_SetShaderMaterial:
  assumes "tg \<in> set (map OBJECT_MATERIAL.tag M)"
  shows "twin M (SetShaderMaterial u tg) (SetShaderMaterial u' tg)"
  unfolding twin_def
proof (intro allI impI, elim conjE)
  fix s t :: scene_manager and shs sht
  assume a: "m_pShaderManager s = Some shs" "m_pShaderManager t = Some sht"
    "same_registries s t" "m_objectMaterials s = M"
  from assms obtain k where k: "k < length M" "OBJECT_MATERIAL.tag (M ! k) = tg"
    by (auto simp: in_set_conv_nth)
  from first_index_exists [where P = "\<lambda>j. j < length M \<and> OBJECT_MATERIAL.tag (M ! j) = tg", of k] k
  obtain j where j: "j < length M" "OBJECT_MATERIAL.tag (M ! j) = tg"
    "\<forall>i<j. OBJECT_MATERIAL.tag (M ! i) \<noteq> tg"
    by (metis dual_order.strict_trans)
  have t: "m_objectMaterials t = M" using a(3,4) by (simp add: same_registries_def)
  have "SetShaderMaterial u tg s =
      Inr (s\<lparr>m_pShaderManager := Some (shs @ material_uploads (M ! j))\<rparr>)"
    using SetShaderMaterial_first_match [of s shs j tg u] a(1,4) j by simp
  moreover have "SetShaderMaterial u' tg t =
      Inr (t\<lparr>m_pShaderManager := Some (sht @ material_uploads (M ! j))\<rparr>)"
    using SetShaderMaterial_first_match [of t sht j tg u'] a(2) t j by simp
  ultimately show "\<exists>out s' t'. SetShaderMaterial u tg s = Inr s' \<and>
           SetShaderMaterial u' tg t = Inr t' \<and>
           m_pShaderManager s' = Some (shs @ out) \<and> m_pShaderManager t' = Some (sht @ out) \<and>
           same_registries s' s \<and> same_registries t' t"
    by (simp add: same_registries_def)
qed

lemmas twin_calls =
  twin_SetTransformations twin_SetShaderColor twin_SetTextureUVScale twin_basicMeshes
  twin_SetShaderTexture twin_SetShaderMaterial

lemma twin_RenderDeskandwalls:
  "defines_all M \<Longrightarrow> twin M (RenderDeskandwalls u) (RenderDeskandwalls u')"
  unfolding RenderDeskandwalls_def
  by (rule twin_run_seq) (simp add: twin_calls defines_all_def)

lemma twin_RenderKeyboardandmat:
  "defines_all M \<Longrightarrow> twin M (RenderKeyboardandmat u) (RenderKeyboardandmat u')"
  unfolding RenderKeyboardandmat_def
  by (rule twin_run_seq) (simp add: twin_calls defines_all_def)

lemma twin_RenderMouse:
  "defines_all M \<Longrightarrow> twin M (RenderMouse u) (RenderMouse u')"
  unfolding RenderMouse_def
  by (rule twin_run_seq) (simp add: twin_calls defines_all_def)

lemma twin_RenderMonitor:
  "defines_all M \<Longrightarrow> twin M (RenderMonitor u) (RenderMonitor u')"
  unfolding RenderMonitor_def
  by (rule twin_run_seq) (simp add: twin_calls defines_all_def)

lemma twin_RenderPCexterior:
  "defines_all M \<Longrightarrow> twin M (RenderPCexterior u) (RenderPCexterior u')"
  unfolding RenderPCexterior_def
  by (rule twin_run_seq) (simp add: twin_calls defines_all_def)

lemma twin_RenderPCinterior:
  "defines_all M \<Longrightarrow> twin M (RenderPCinterior u) (RenderPCinterior u')"
  unfolding RenderPCinterior_def
  by (rule twin_run_seq) (simp add: twin_calls defines_all_def)

lemma twin_RenderGlass:
  "defines_all M \<Longrightarrow> twin M (RenderGlass u) (RenderGlass u')"
  unfolding RenderGlass_def
  by (rule twin_run_seq) (simp add: twin_calls defines_all_def)

lemma twin_RenderScene:
  "defines_all M \<Longrightarrow> twin M (RenderScene u) (RenderScene u')"
  unfolding RenderScene_def
  by (rule twin_run_seq)
     (simp add: twin_RenderDeskandwalls twin_RenderKeyboardandmat twin_RenderMouse
        twin_RenderMonitor twin_RenderPCexterior twin_RenderPCinterior twin_RenderGlass)

lemma RenderScene_replays_agree_when_defined:
  assumes sh: "m_pShaderManager s = Some sh"
    and le: "m_loadedTextures s \<le> length (m_textureIDs s)"
    and all: "defines_all (m_objectMaterials s)"
  shows "\<exists>out s1 s2. RenderScene u s = Inr s1 \<and> RenderScene u' s1 = Inr s2
     \<and> m_pShaderManager s1 = Some (sh @ out)
     \<and> m_pShaderManager s2 = Some ((sh @ out) @ out)
     \<and> same_registries s1 s \<and> same_registries s2 s"
proof -
  let ?M = "m_objectMaterials s"
  have ss: "same_registries s s" by (simp add: same_registries_def)
  from twinD [OF twin_RenderScene [OF all, of u u] sh sh le ss refl]
  obtain out s1 where 1: "RenderScene u s = Inr s1" "m_pShaderManager s1 = Some (sh @ out)"
    "same_registries s1 s"
    by blast
  have s1s: "same_registries s s1" using 1(3) by (simp add: same_registries_def)
  from twinD [OF twin_RenderScene [OF all, of u u'] sh 1(2) le s1s refl]
  obtain out' s1' s2 where 2: "RenderScene u s = Inr s1'" "RenderScene u' s1 = Inr s2"
    "m_pShaderManager s1' = Some (sh @ out')" "m_pShaderManager s2 = Some ((sh @ out) @ out')"
    "same_registries s2 s1"
    by blast
  from 1(1,2) 2(1,3) have "out' = out" by simp
  with 1 2 show ?thesis
    by (intro exI [of _ out] exI [of _ s1] exI [of _ s2]) (simp add: same_registries_def)
qed

end
